theory Spec2Isabelle
  imports Complex_Main
begin

section \<open>Data model of \<open>CollisionSolver.cpp\<close>\<close>

text \<open>
  The source computes on C++ \<open>float\<close>. The embedding idealises a \<open>float\<close> as a
  \<^typ>\<open>real\<close>: arithmetic is exact, there is no rounding, no infinity and no NaN.
  The two sentinels of the source, \<open>numeric_limits<float>::max()\<close> and
  \<open>numeric_limits<float>::lowest()\<close>, keep their numeric values.
\<close>

definition FLT_MAX :: real where
  "FLT_MAX = 340282346638528859811704183484516925440"

text \<open>
  Modelled from the spec: \<open>Vec2\<close> is declared in a header that is not part of the
  sources at hand. The spec describes it as a 2D float pair with dot product, subtraction
  and scalar scaling; the operators the solver uses on it (\<open>+=\<close>, \<open>-=\<close>, \<open>-\<close>,
  \<open>*\<close> with a scalar, \<open>dot\<close>) are the componentwise ones. The members \<open>x\<close> and
  \<open>y\<close> are named \<open>vx\<close> and \<open>vy\<close> here.
\<close>

record Vec2 =
  vx :: real
  vy :: real

definition vadd :: "Vec2 \<Rightarrow> Vec2 \<Rightarrow> Vec2" where
  "vadd a b = \<lparr>vx = vx a + vx b, vy = vy a + vy b\<rparr>"

definition vsub :: "Vec2 \<Rightarrow> Vec2 \<Rightarrow> Vec2" where
  "vsub a b = \<lparr>vx = vx a - vx b, vy = vy a - vy b\<rparr>"

definition vmul :: "Vec2 \<Rightarrow> real \<Rightarrow> Vec2" where
  "vmul a k = \<lparr>vx = vx a * k, vy = vy a * k\<rparr>"

definition dot :: "Vec2 \<Rightarrow> Vec2 \<Rightarrow> real" where
  "dot a b = vx a * vx b + vy a * vy b"

text \<open>
  Two members of \<open>Vec2\<close> cannot be read off the solver: \<open>getNormal\<close>, the
  perpendicular of an edge, and the value of a default-constructed \<open>Vec2\<close> (the
  initial \<open>normal\<close> of \<open>checkOverlap\<close>). Both are parameters of the model, passed
  as one record.
\<close>

record Vec2_h =
  getNormal :: "Vec2 \<Rightarrow> Vec2"
  Vec2_init :: Vec2

record Bounds =
  topLeft :: Vec2
  bottomRight :: Vec2

record Projection =
  minP :: real
  maxP :: real

record Overlap =
  depth :: real
  direction :: Vec2

text \<open>
  The four \<open>Vec2 &\<close> out-parameters of \<open>solveCollision\<close>, as the state the call
  reads and returns updated.
\<close>

record Motion =
  velocityA :: Vec2
  velocityB :: Vec2
  overlapAccumulatorA :: Vec2
  overlapAccumulatorB :: Vec2

section \<open>The functions of the anonymous namespace\<close>

definition areBothStatic :: "real \<Rightarrow> real \<Rightarrow> bool" where
  "areBothStatic massInverseA massInverseB \<longleftrightarrow> massInverseA = 0 \<and> massInverseB = 0"

definition boundsOverlap :: "Bounds \<Rightarrow> Bounds \<Rightarrow> bool" where
  "boundsOverlap boundsA boundsB =
     (if vx (bottomRight boundsA) \<le> vx (topLeft boundsB) then False
      else if vx (topLeft boundsA) \<ge> vx (bottomRight boundsB) then False
      else if vy (bottomRight boundsA) \<le> vy (topLeft boundsB) then False
      else if vy (topLeft boundsA) \<ge> vy (bottomRight boundsB) then False
      else True)"

text \<open>The range-for of \<open>project\<close>, with the running \<open>min\<close> and \<open>max\<close>.\<close>

primrec project_loop :: "Vec2 list \<Rightarrow> Vec2 \<Rightarrow> real \<Rightarrow> real \<Rightarrow> Projection" where
  "project_loop [] n mn mx = \<lparr>minP = mn, maxP = mx\<rparr>"
| "project_loop (v # vs) n mn mx =
     (let proj = dot n v;
          mn' = (if proj < mn then proj else mn);
          mx' = (if proj > mx then proj else mx)
      in project_loop vs n mn' mx')"

definition project :: "Vec2 list \<Rightarrow> Vec2 \<Rightarrow> Projection" where
  "project vertices n = project_loop vertices n FLT_MAX (- FLT_MAX)"

text \<open>
  The loop of \<open>checkOverlap\<close>, with its variables \<open>v1\<close>, \<open>v2\<close>,
  \<open>minPenetration\<close> and \<open>normal\<close>. The early \<open>return {}\<close> is \<open>None\<close>.
  The body reads \<open>verticesA[v1]\<close> and \<open>verticesA[v2]\<close> only while
  \<open>v2 < verticesA.size()\<close>, where both indices are in range.
\<close>

function checkOverlap_loop ::
  "Vec2_h \<Rightarrow> Vec2 \<Rightarrow> Vec2 list \<Rightarrow> Vec2 list \<Rightarrow> nat \<Rightarrow> nat \<Rightarrow> real \<Rightarrow> Vec2 \<Rightarrow> Overlap option" where
  "checkOverlap_loop H d verticesA verticesB v1 v2 minPenetration normal =
     (if v2 < length verticesA then
        (let vertex1 = verticesA ! v1;
             vertex2 = verticesA ! v2;
             edge = vsub vertex2 vertex1;
             n = getNormal H edge;
             projA = project verticesA n;
             projB0 = project verticesB n;
             projD = dot n d;
             projB = \<lparr>minP = minP projB0 + projD, maxP = maxP projB0 + projD\<rparr>
         in if minP projB \<ge> maxP projA \<or> maxP projB \<le> minP projA then None
            else
              (let p = \<bar>maxP projA - minP projB\<bar>
               in if p < minPenetration
                  then checkOverlap_loop H d verticesA verticesB v2 (v2 + 1) p n
                  else checkOverlap_loop H d verticesA verticesB v2 (v2 + 1) minPenetration normal))
      else Some \<lparr>depth = minPenetration, direction = normal\<rparr>)"
  by pat_completeness auto
termination
  by (relation "measure (\<lambda>(H, d, verticesA, verticesB, v1, v2, minPenetration, normal).
        length verticesA - v2)") auto

declare checkOverlap_loop.simps [simp del]

text \<open>
  \<open>v1\<close> starts at \<open>verticesA.size() - 1\<close>. On an empty vector the \<open>size_t\<close>
  subtraction wraps around, but the loop body never runs and \<open>v1\<close> is never read;
  the truncated subtraction of \<^typ>\<open>nat\<close> gives 0 there, equally unread.
\<close>

definition checkOverlap :: "Vec2_h \<Rightarrow> Vec2 \<Rightarrow> Vec2 \<Rightarrow> Vec2 list \<Rightarrow> Vec2 list \<Rightarrow> Overlap option" where
  "checkOverlap H posA posB verticesA verticesB =
     (let d = vsub posB posA
      in checkOverlap_loop H d verticesA verticesB (length verticesA - 1) 0 FLT_MAX (Vec2_init H))"

section \<open>\<open>CollisionSolver::solveCollision\<close>\<close>

definition solveCollision ::
  "Vec2_h \<Rightarrow> real \<Rightarrow> real \<Rightarrow> Bounds \<Rightarrow> Bounds \<Rightarrow> Vec2 \<Rightarrow> Vec2 \<Rightarrow> Vec2 list \<Rightarrow> Vec2 list \<Rightarrow>
   Motion \<Rightarrow> Motion" where
  "solveCollision H massInverseA massInverseB boundsA boundsB posA posB verticesA verticesB s =
     (if areBothStatic massInverseA massInverseB \<or> \<not> boundsOverlap boundsA boundsB then s
      else case checkOverlap H posA posB verticesA verticesB of
        None \<Rightarrow> s
      | Some overlap1 \<Rightarrow>
         (case checkOverlap H posB posA verticesB verticesA of
            None \<Rightarrow> s
          | Some overlap2 \<Rightarrow>
             (let d = min (depth overlap1) (depth overlap2);
                  n = (if depth overlap1 < depth overlap2
                       then direction overlap1 else direction overlap2);
                  d1 = d * massInverseA / (massInverseA + massInverseB);
                  d2 = d - d1;
                  d1' = (if depth overlap1 \<ge> depth overlap2 then d1 * (- 1) else d1);
                  d2' = (if depth overlap1 \<ge> depth overlap2 then d2 * (- 1) else d2);
                  vRel = vsub (velocityA s) (velocityB s);
                  j = - dot n vRel * 2 / (massInverseA + massInverseB)
              in \<lparr>velocityA = vadd (velocityA s) (vmul n (j * massInverseA)),
                  velocityB = vsub (velocityB s) (vmul n (j * massInverseB)),
                  overlapAccumulatorA = vsub (overlapAccumulatorA s) (vmul n d1'),
                  overlapAccumulatorB = vadd (overlapAccumulatorB s) (vmul n d2')\<rparr>)))"


section \<open>The notions the specification is phrased in\<close>

text \<open>
  The edge normals of a polygon in the words of the specification: one per edge, the
  edges taken from each vertex's predecessor to the vertex, wrapping the last vertex to
  the first.
\<close>

definition edgeNormals :: "Vec2_h \<Rightarrow> Vec2 list \<Rightarrow> Vec2 list" where
  "edgeNormals H vs =
     map (\<lambda>i. getNormal H (vsub (vs ! i) (vs ! (if i = 0 then length vs - 1 else i - 1))))
       [0..<length vs]"

text \<open>
  An axis \<open>n\<close> separates A from B when B's projection interval, shifted by
  \<open>n\<cdot>(posB - posA)\<close>, does not overlap A's.
\<close>

definition separatingAxis :: "Vec2 \<Rightarrow> Vec2 \<Rightarrow> Vec2 list \<Rightarrow> Vec2 list \<Rightarrow> Vec2 \<Rightarrow> bool" where
  "separatingAxis posA posB vsA vsB n \<longleftrightarrow>
     minP (project vsB n) + dot n (vsub posB posA) \<ge> maxP (project vsA n) \<or>
     maxP (project vsB n) + dot n (vsub posB posA) \<le> minP (project vsA n)"

text \<open>The penetration depth on an axis: \<open>|projA.max - projB.min|\<close> after the shift.\<close>

definition penetration :: "Vec2 \<Rightarrow> Vec2 \<Rightarrow> Vec2 list \<Rightarrow> Vec2 list \<Rightarrow> Vec2 \<Rightarrow> real" where
  "penetration posA posB vsA vsB n =
     \<bar>maxP (project vsA n) - (minP (project vsB n) + dot n (vsub posB posA))\<bar>"

text \<open>
  The loop of \<open>checkOverlap\<close> seen as a scan over a list of axes; used to reason
  about the loop, and proved equal to it below.
\<close>

fun scanAxes :: "(Vec2 \<Rightarrow> bool) \<Rightarrow> (Vec2 \<Rightarrow> real) \<Rightarrow> Vec2 list \<Rightarrow> real \<Rightarrow> Vec2 \<Rightarrow> Overlap option" where
  "scanAxes sep pen [] mp nrm = Some \<lparr>depth = mp, direction = nrm\<rparr>"
| "scanAxes sep pen (n # ns) mp nrm =
     (if sep n then None
      else if pen n < mp then scanAxes sep pen ns (pen n) n
      else scanAxes sep pen ns mp nrm)"


section \<open>A concrete \<open>Vec2\<close> and the scenario of the unit squares\<close>

text \<open>
  Modelled from the spec: \<open>Vec2::getNormal\<close> is declared in the absent header. The
  spec calls it the perpendicular of an edge and calls the axes unit vectors, so the
  concrete instances turn the edge by a quarter and scale it to length 1. The spec does
  not fix the sense of the turn: both are given. A default-constructed \<open>Vec2\<close> is taken
  to be the zero vector. The general theorems below do not depend on these choices; only
  the concrete scenarios use them.
\<close>

definition normalized :: "Vec2 \<Rightarrow> Vec2" where
  "normalized v = (let l = sqrt (dot v v) in \<lparr>vx = vx v / l, vy = vy v / l\<rparr>)"

definition Vec2_cw :: Vec2_h where
  "Vec2_cw = \<lparr>getNormal = (\<lambda>e. normalized \<lparr>vx = vy e, vy = - vx e\<rparr>),
              Vec2_init = \<lparr>vx = 0, vy = 0\<rparr>\<rparr>"

definition Vec2_ccw :: Vec2_h where
  "Vec2_ccw = \<lparr>getNormal = (\<lambda>e. normalized \<lparr>vx = - vy e, vy = vx e\<rparr>),
               Vec2_init = \<lparr>vx = 0, vy = 0\<rparr>\<rparr>"

text \<open>The unit square in its local frame, and the bounds of a unit square centred at a position.\<close>

definition unitSquare :: "Vec2 list" where
  "unitSquare = [\<lparr>vx = - (1/2), vy = - (1/2)\<rparr>, \<lparr>vx = 1/2, vy = - (1/2)\<rparr>,
                 \<lparr>vx = 1/2, vy = 1/2\<rparr>, \<lparr>vx = - (1/2), vy = 1/2\<rparr>]"

definition squareBounds :: "Vec2 \<Rightarrow> Bounds" where
  "squareBounds pos = \<lparr>topLeft = \<lparr>vx = vx pos - 1/2, vy = vy pos - 1/2\<rparr>,
                        bottomRight = \<lparr>vx = vx pos + 1/2, vy = vy pos + 1/2\<rparr>\<rparr>"

definition origin :: Vec2 where
  "origin = \<lparr>vx = 0, vy = 0\<rparr>"

definition halfRight :: Vec2 where
  "halfRight = \<lparr>vx = 1/2, vy = 0\<rparr>"

definition atRest :: Motion where
  "atRest = \<lparr>velocityA = origin, velocityB = origin,
             overlapAccumulatorA = origin, overlapAccumulatorB = origin\<rparr>"

definition farRight :: Vec2 where
  "farRight = \<lparr>vx = 2, vy = 0\<rparr>"

definition movingA :: Motion where
  "movingA = \<lparr>velocityA = \<lparr>vx = 1, vy = 0\<rparr>, velocityB = origin,
              overlapAccumulatorA = origin, overlapAccumulatorB = origin\<rparr>"

text \<open>
  The two unit squares, A centred at (0,0) and B at (0.5,0), with bounds that fit them,
  resolved with inverse masses \<open>mA\<close> and \<open>mB\<close> from the motion \<open>s\<close>.
\<close>

definition squaresRun :: "Vec2_h \<Rightarrow> real \<Rightarrow> real \<Rightarrow> Motion \<Rightarrow> Motion" where
  "squaresRun H mA mB s =
     solveCollision H mA mB (squareBounds origin) (squareBounds halfRight)
       origin halfRight unitSquare unitSquare s"

text \<open>
  The same unit square with its vertex list started one vertex later, and a position half
  a unit right and half a unit up: a pair on which the two probes tie with normals that
  are not opposite.
\<close>

definition unitSquareShifted :: "Vec2 list" where
  "unitSquareShifted = [\<lparr>vx = 1/2, vy = - (1/2)\<rparr>, \<lparr>vx = 1/2, vy = 1/2\<rparr>,
                        \<lparr>vx = - (1/2), vy = 1/2\<rparr>, \<lparr>vx = - (1/2), vy = - (1/2)\<rparr>]"

definition halfDiagonal :: Vec2 where
  "halfDiagonal = \<lparr>vx = 1/2, vy = 1/2\<rparr>"

text \<open>
  A square with the same winding whose corners have the coordinates \<open>\<plusminus>FLT_MAX\<close>, the
  largest finite \<open>float\<close>.
\<close>

definition hugeSquare :: "Vec2 list" where
  "hugeSquare = [\<lparr>vx = - FLT_MAX, vy = - FLT_MAX\<rparr>, \<lparr>vx = FLT_MAX, vy = - FLT_MAX\<rparr>,
                 \<lparr>vx = FLT_MAX, vy = FLT_MAX\<rparr>, \<lparr>vx = - FLT_MAX, vy = FLT_MAX\<rparr>]"

section \<open>Notions of the testable properties\<close>

text \<open>
  Total momentum and total kinetic energy of the pair, in the words of the specification:
  a body's mass is the reciprocal of its inverse mass, its momentum its velocity divided
  by the inverse mass.
\<close>

definition momentum :: "real \<Rightarrow> real \<Rightarrow> Motion \<Rightarrow> Vec2" where
  "momentum mA mB s = vadd (vmul (velocityA s) (1 / mA)) (vmul (velocityB s) (1 / mB))"

definition kineticEnergy :: "real \<Rightarrow> real \<Rightarrow> Motion \<Rightarrow> real" where
  "kineticEnergy mA mB s =
     (dot (velocityA s) (velocityA s) / mA + dot (velocityB s) (velocityB s) / mB) / 2"

text \<open>The motion of the pair with the two bodies exchanged, for a call with swapped arguments.\<close>

definition swapMotion :: "Motion \<Rightarrow> Motion" where
  "swapMotion s = \<lparr>velocityA = velocityB s, velocityB = velocityA s,
                    overlapAccumulatorA = overlapAccumulatorB s,
                    overlapAccumulatorB = overlapAccumulatorA s\<rparr>"

text \<open>
  The literal reading of "equal and opposite": the four deltas of a run from \<open>s'\<close> to
  \<open>r'\<close> are the negated deltas of a run from \<open>s\<close> to \<open>r\<close>.
\<close>

definition oppositeDeltas :: "Motion \<Rightarrow> Motion \<Rightarrow> Motion \<Rightarrow> Motion \<Rightarrow> bool" where
  "oppositeDeltas s r s' r' \<longleftrightarrow>
     vsub (velocityA r') (velocityA s') = vmul (vsub (velocityA r) (velocityA s)) (- 1) \<and>
     vsub (velocityB r') (velocityB s') = vmul (vsub (velocityB r) (velocityB s)) (- 1) \<and>
     vsub (overlapAccumulatorA r') (overlapAccumulatorA s') =
       vmul (vsub (overlapAccumulatorA r) (overlapAccumulatorA s)) (- 1) \<and>
     vsub (overlapAccumulatorB r') (overlapAccumulatorB s') =
       vmul (vsub (overlapAccumulatorB r) (overlapAccumulatorB s)) (- 1)"

text \<open>The same two squares passed in the other order: B's arguments first, then A's.\<close>

definition squaresRunSwapped :: "Vec2_h \<Rightarrow> real \<Rightarrow> real \<Rightarrow> Motion \<Rightarrow> Motion" where
  "squaresRunSwapped H mA mB s =
     solveCollision H mB mA (squareBounds halfRight) (squareBounds origin)
       halfRight origin unitSquare unitSquare (swapMotion s)"

text \<open>
  The contribution of one call to each accumulator: what the call leaves in accumulators
  that were zero before it.
\<close>

definition contributionA ::
  "Vec2_h \<Rightarrow> real \<Rightarrow> real \<Rightarrow> Bounds \<Rightarrow> Bounds \<Rightarrow> Vec2 \<Rightarrow> Vec2 \<Rightarrow> Vec2 list \<Rightarrow> Vec2 list \<Rightarrow> Vec2" where
  "contributionA H mA mB bA bB pA pB vsA vsB =
     overlapAccumulatorA (solveCollision H mA mB bA bB pA pB vsA vsB atRest)"

definition contributionB ::
  "Vec2_h \<Rightarrow> real \<Rightarrow> real \<Rightarrow> Bounds \<Rightarrow> Bounds \<Rightarrow> Vec2 \<Rightarrow> Vec2 \<Rightarrow> Vec2 list \<Rightarrow> Vec2 list \<Rightarrow> Vec2" where
  "contributionB H mA mB bA bB pA pB vsA vsB =
     overlapAccumulatorB (solveCollision H mA mB bA bB pA pB vsA vsB atRest)"

section \<open>The split of the depth in binary32\<close>

text \<open>
  The embedding above computes on reals. Where the rounding of \<open>float\<close> decides what
  the program does, the lines concerned are modelled a second time with every operation
  rounded to IEEE 754 binary32: to the nearest number with a significand of 24 bits, ties
  to the even significand, the exponent not below that of the subnormal numbers.
  Overflow to infinity is not modelled; the values used below are far from it.
\<close>

definition roundEven :: "real \<Rightarrow> int" where
  "roundEven x =
     (let f = \<lfloor>x\<rfloor>; r = x - of_int f
      in if r < 1/2 then f else if r > 1/2 then f + 1 else if even f then f else f + 1)"

definition binary32 :: "real \<Rightarrow> real" where
  "binary32 x =
     (if x = 0 then 0
      else (let e = max \<lfloor>log 2 \<bar>x\<bar>\<rfloor> (- 126) - 23
            in of_int (roundEven (x / 2 powi e)) * 2 powi e))"

text \<open>
  Lines 85 and 94 of \<open>checkOverlap\<close>: \<open>projB.min += projD\<close>, then
  \<open>abs(projA.max - projB.min)\<close>.
\<close>

definition penetration32 :: "real \<Rightarrow> real \<Rightarrow> real \<Rightarrow> real" where
  "penetration32 projA_max projB_min projD = binary32 \<bar>projA_max - binary32 (projB_min + projD)\<bar>"

text \<open>
  Lines 122 to 132 of \<open>solveCollision\<close>: \<open>d\<close>, \<open>d1\<close>, \<open>d2\<close> and their
  flip, from the depths of the two probes; the pair returned is \<open>(d1, d2)\<close>.
\<close>

definition shares32 :: "real \<Rightarrow> real \<Rightarrow> real \<Rightarrow> real \<Rightarrow> real \<times> real" where
  "shares32 depth1 depth2 massInverseA massInverseB =
     (let d = min depth1 depth2;
          d1 = binary32 (binary32 (d * massInverseA) / binary32 (massInverseA + massInverseB));
          d2 = binary32 (d - d1)
      in if depth1 \<ge> depth2 then (binary32 (d1 * (- 1)), binary32 (d2 * (- 1))) else (d1, d2))"

text \<open>Line 143: \<open>overlapAccumulatorB += n * d2\<close>, componentwise.\<close>

definition addScaled32 :: "Vec2 \<Rightarrow> Vec2 \<Rightarrow> real \<Rightarrow> Vec2" where
  "addScaled32 acc n k =
     \<lparr>vx = binary32 (vx acc + binary32 (vx n * k)), vy = binary32 (vy acc + binary32 (vy n * k))\<rparr>"

section \<open>The loop of \<open>checkOverlap\<close> as a scan over the edge normals\<close>

lemma edgeNormals_length: "length (edgeNormals H vs) = length vs"
  by (simp add: edgeNormals_def)

lemma edgeNormals_nth:
  "i < length vs \<Longrightarrow>
   edgeNormals H vs ! i =
     getNormal H (vsub (vs ! i) (vs ! (if i = 0 then length vs - 1 else i - 1)))"
  by (simp add: edgeNormals_def)

lemma checkOverlap_loop_scan:
  "v2 \<le> length vsA \<Longrightarrow> v1 = (if v2 = 0 then length vsA - 1 else v2 - 1) \<Longrightarrow>
   checkOverlap_loop H (vsub posB posA) vsA vsB v1 v2 mp nrm =
   scanAxes (separatingAxis posA posB vsA vsB) (penetration posA posB vsA vsB)
     (drop v2 (edgeNormals H vsA)) mp nrm"
proof (induction "length vsA - v2" arbitrary: v1 v2 mp nrm)
  case 0
  then have "v2 = length vsA" by simp
  then show ?case
    by (simp add: checkOverlap_loop.simps [of _ _ _ _ _ "length vsA"] edgeNormals_length)
next
  case (Suc k)
  then have lt: "v2 < length vsA" by simp
  have dr: "drop v2 (edgeNormals H vsA) =
      getNormal H (vsub (vsA ! v2) (vsA ! v1)) # drop (Suc v2) (edgeNormals H vsA)"
    using lt Suc.prems(2)
    by (simp add: Cons_nth_drop_Suc [symmetric] edgeNormals_length edgeNormals_nth)
  have k: "k = length vsA - Suc v2" using Suc.hyps(2) by simp
  have ih: "\<And>mp nrm. checkOverlap_loop H (vsub posB posA) vsA vsB v2 (Suc v2) mp nrm =
      scanAxes (separatingAxis posA posB vsA vsB) (penetration posA posB vsA vsB)
        (drop (Suc v2) (edgeNormals H vsA)) mp nrm"
    using Suc.hyps(1) [OF k] lt by simp
  show ?case
    unfolding dr
    by (subst checkOverlap_loop.simps)
       (simp add: lt Let_def ih separatingAxis_def penetration_def)
qed

lemma checkOverlap_scan:
  "checkOverlap H posA posB vsA vsB =
   scanAxes (separatingAxis posA posB vsA vsB) (penetration posA posB vsA vsB)
     (edgeNormals H vsA) FLT_MAX (Vec2_init H)"
  using checkOverlap_loop_scan [of 0 vsA "length vsA - 1" H posB posA vsB FLT_MAX "Vec2_init H"]
  by (simp add: checkOverlap_def)

lemma scanAxes_None:
  "scanAxes sep pen ns mp nrm = None \<longleftrightarrow> (\<exists>n \<in> set ns. sep n)"
  by (induction ns arbitrary: mp nrm) auto

lemma Min_insert_absorb:
  fixes a b :: real
  assumes "finite S" "a \<le> b"
  shows "Min (insert a (insert b S)) = Min (insert a S)"
proof -
  have "Min (insert b (insert a S)) = min b (Min (insert a S))"
    using assms(1) by (simp only: Min_insert finite_insert insert_not_empty not_False_eq_True)
  moreover have "Min (insert a S) \<le> a" using assms(1) by simp
  ultimately show ?thesis using assms(2) by (simp add: insert_commute min_def)
qed

lemma scanAxes_depth:
  "scanAxes sep pen ns mp nrm = Some ov \<Longrightarrow> depth ov = Min (insert mp (pen ` set ns))"
proof (induction ns arbitrary: mp nrm)
  case Nil
  then show ?case by auto
next
  case (Cons n ns)
  show ?case
  proof (cases "pen n < mp")
    case True
    with Cons.prems have "scanAxes sep pen ns (pen n) n = Some ov"
      by (simp split: if_splits)
    then have "depth ov = Min (insert (pen n) (pen ` set ns))" by (rule Cons.IH)
    moreover have "Min (insert (pen n) (insert mp (pen ` set ns))) = Min (insert (pen n) (pen ` set ns))"
      using True by (intro Min_insert_absorb) simp_all
    ultimately show ?thesis by (simp add: insert_commute)
  next
    case False
    with Cons.prems have "scanAxes sep pen ns mp nrm = Some ov"
      by (simp split: if_splits)
    then have "depth ov = Min (insert mp (pen ` set ns))" by (rule Cons.IH)
    moreover have "Min (insert mp (insert (pen n) (pen ` set ns))) = Min (insert mp (pen ` set ns))"
      using False by (intro Min_insert_absorb) simp_all
    ultimately show ?thesis by simp
  qed
qed

lemma scanAxes_direction:
  "scanAxes sep pen ns mp nrm = Some ov \<Longrightarrow>
   (depth ov = mp \<and> direction ov = nrm) \<or>
   (depth ov < mp \<and> direction ov \<in> set ns \<and> pen (direction ov) = depth ov)"
proof (induction ns arbitrary: mp nrm)
  case Nil
  then show ?case by auto
next
  case (Cons n ns)
  show ?case
  proof (cases "pen n < mp")
    case True
    with Cons.prems have "scanAxes sep pen ns (pen n) n = Some ov"
      by (simp split: if_splits)
    from Cons.IH [OF this] True show ?thesis by auto
  next
    case False
    with Cons.prems have "scanAxes sep pen ns mp nrm = Some ov"
      by (simp split: if_splits)
    from Cons.IH [OF this] show ?thesis by auto
  qed
qed


lemma scanAxes_first:
  "scanAxes sep pen ns mp nrm = Some ov \<Longrightarrow> depth ov < mp \<Longrightarrow>
   find (\<lambda>n. pen n = depth ov) ns = Some (direction ov)"
proof (induction ns arbitrary: mp nrm)
  case Nil
  then show ?case by auto
next
  case (Cons n ns)
  show ?case
  proof (cases "pen n < mp")
    case True
    with Cons.prems have run: "scanAxes sep pen ns (pen n) n = Some ov"
      by (simp split: if_splits)
    from scanAxes_direction [OF run] show ?thesis
    proof
      assume "depth ov = pen n \<and> direction ov = n"
      then show ?thesis by simp
    next
      assume lt: "depth ov < pen n \<and> direction ov \<in> set ns \<and> pen (direction ov) = depth ov"
      then have "find (\<lambda>n. pen n = depth ov) ns = Some (direction ov)"
        using Cons.IH [OF run] by simp
      with lt show ?thesis by simp
    qed
  next
    case False
    with Cons.prems have run: "scanAxes sep pen ns mp nrm = Some ov"
      by (simp split: if_splits)
    from Cons.IH [OF run Cons.prems(2)] False Cons.prems(2) show ?thesis by simp
  qed
qed

lemma Min_below_sentinel:
  fixes m :: real
  assumes "finite S" "x \<in> S" "x < m"
  shows "Min (insert m S) = Min S" "Min S < m"
proof -
  have ne: "S \<noteq> {}" using assms(2) by auto
  have le: "Min S \<le> x" using assms(1,2) by simp
  then show "Min S < m" using assms(3) by simp
  have "Min (insert m S) = min m (Min S)"
    using assms(1) ne by simp
  then show "Min (insert m S) = Min S" using le assms(3) by (simp add: min_def)
qed

section \<open>The two unit squares, evaluated\<close>

lemma edgeNormals_cw: "edgeNormals Vec2_cw unitSquare =
   [\<lparr>vx = - 1, vy = 0\<rparr>, \<lparr>vx = 0, vy = - 1\<rparr>, \<lparr>vx = 1, vy = 0\<rparr>, \<lparr>vx = 0, vy = 1\<rparr>]"
  by (simp add: edgeNormals_def Vec2_cw_def unitSquare_def normalized_def vsub_def dot_def Let_def)

lemma edgeNormals_ccw: "edgeNormals Vec2_ccw unitSquare =
   [\<lparr>vx = 1, vy = 0\<rparr>, \<lparr>vx = 0, vy = 1\<rparr>, \<lparr>vx = - 1, vy = 0\<rparr>, \<lparr>vx = 0, vy = - 1\<rparr>]"
  by (simp add: edgeNormals_def Vec2_ccw_def unitSquare_def normalized_def vsub_def dot_def Let_def)

lemma project_unitSquare:
  "project unitSquare \<lparr>vx = 1, vy = 0\<rparr> = \<lparr>minP = - (1/2), maxP = 1/2\<rparr>"
  "project unitSquare \<lparr>vx = - 1, vy = 0\<rparr> = \<lparr>minP = - (1/2), maxP = 1/2\<rparr>"
  "project unitSquare \<lparr>vx = 0, vy = 1\<rparr> = \<lparr>minP = - (1/2), maxP = 1/2\<rparr>"
  "project unitSquare \<lparr>vx = 0, vy = - 1\<rparr> = \<lparr>minP = - (1/2), maxP = 1/2\<rparr>"
  by (simp_all add: project_def unitSquare_def dot_def Let_def FLT_MAX_def)

lemmas squares_eval =
  separatingAxis_def penetration_def project_unitSquare
  origin_def halfRight_def farRight_def vsub_def dot_def FLT_MAX_def

lemma probe_cw_AB: "checkOverlap Vec2_cw origin halfRight unitSquare unitSquare =
   Some \<lparr>depth = 1/2, direction = \<lparr>vx = 1, vy = 0\<rparr>\<rparr>"
  by (simp add: checkOverlap_scan edgeNormals_cw squares_eval)

lemma probe_cw_BA: "checkOverlap Vec2_cw halfRight origin unitSquare unitSquare =
   Some \<lparr>depth = 1/2, direction = \<lparr>vx = - 1, vy = 0\<rparr>\<rparr>"
  by (simp add: checkOverlap_scan edgeNormals_cw squares_eval)

lemma probe_ccw_AB: "checkOverlap Vec2_ccw origin halfRight unitSquare unitSquare =
   Some \<lparr>depth = 1/2, direction = \<lparr>vx = 1, vy = 0\<rparr>\<rparr>"
  by (simp add: checkOverlap_scan edgeNormals_ccw squares_eval)

lemma probe_ccw_BA: "checkOverlap Vec2_ccw halfRight origin unitSquare unitSquare =
   Some \<lparr>depth = 1/2, direction = \<lparr>vx = - 1, vy = 0\<rparr>\<rparr>"
  by (simp add: checkOverlap_scan edgeNormals_ccw squares_eval)

lemma probe_cw_far: "checkOverlap Vec2_cw origin farRight unitSquare unitSquare = None"
  by (simp add: checkOverlap_scan edgeNormals_cw squares_eval)

lemma bounds_squares:
  "boundsOverlap (squareBounds origin) (squareBounds halfRight)"
  "boundsOverlap (squareBounds halfRight) (squareBounds origin)"
  "\<not> boundsOverlap (squareBounds origin) (squareBounds farRight)"
  by (simp_all add: boundsOverlap_def squareBounds_def origin_def halfRight_def farRight_def)

section \<open>The directional probe\<close>

lemma project_hugeSquare:
  "project hugeSquare \<lparr>vx = 1, vy = 0\<rparr> = \<lparr>minP = - FLT_MAX, maxP = FLT_MAX\<rparr>"
  "project hugeSquare \<lparr>vx = - 1, vy = 0\<rparr> = \<lparr>minP = - FLT_MAX, maxP = FLT_MAX\<rparr>"
  "project hugeSquare \<lparr>vx = 0, vy = 1\<rparr> = \<lparr>minP = - FLT_MAX, maxP = FLT_MAX\<rparr>"
  "project hugeSquare \<lparr>vx = 0, vy = - 1\<rparr> = \<lparr>minP = - FLT_MAX, maxP = FLT_MAX\<rparr>"
  by (simp_all add: project_def hugeSquare_def dot_def Let_def FLT_MAX_def)

lemma penetration_huge:
  "n \<in> set [\<lparr>vx = - 1, vy = 0\<rparr>, \<lparr>vx = 0, vy = - 1\<rparr>, \<lparr>vx = 1, vy = 0\<rparr>, \<lparr>vx = 0, vy = 1\<rparr>] \<Longrightarrow>
   penetration origin origin unitSquare hugeSquare n = FLT_MAX + 1/2 \<and>
   \<not> separatingAxis origin origin unitSquare hugeSquare n"
  by (auto simp add: penetration_def separatingAxis_def project_unitSquare project_hugeSquare
      origin_def vsub_def dot_def FLT_MAX_def)

lemma Vec2_init_zero:
  "Vec2_init Vec2_cw = \<lparr>vx = 0, vy = 0\<rparr>" "Vec2_init Vec2_ccw = \<lparr>vx = 0, vy = 0\<rparr>"
  by (simp_all add: Vec2_cw_def Vec2_ccw_def)

lemma probe_huge:
  "checkOverlap Vec2_cw origin origin unitSquare hugeSquare =
     Some \<lparr>depth = FLT_MAX, direction = \<lparr>vx = 0, vy = 0\<rparr>\<rparr>"
  "checkOverlap Vec2_ccw origin origin unitSquare hugeSquare =
     Some \<lparr>depth = FLT_MAX, direction = \<lparr>vx = 0, vy = 0\<rparr>\<rparr>"
  by (simp_all add: checkOverlap_scan edgeNormals_cw edgeNormals_ccw penetration_huge
      Vec2_init_zero)

text \<open>
  C1, as stated, fails. The loop starts \<open>minPenetration\<close> at \<open>FLT_MAX\<close> and takes
  an axis only when its penetration is strictly below it. For the unit square A probed
  against a square B with corners at \<open>\<plusminus>FLT_MAX\<close>, both at the same position, no axis
  separates and every penetration is at least \<open>FLT_MAX\<close> (\<open>FLT_MAX + 0.5\<close> in exact
  arithmetic, which a \<open>float\<close> rounds to \<open>FLT_MAX\<close>): the probe returns an overlap whose
  normal is the default-constructed \<open>Vec2\<close>, not an edge normal of A.
\<close>

theorem checkOverlap_sentinel_normal:
  "checkOverlap Vec2_cw origin origin unitSquare hugeSquare =
     Some \<lparr>depth = FLT_MAX, direction = \<lparr>vx = 0, vy = 0\<rparr>\<rparr> \<and>
   \<lparr>vx = 0, vy = 0\<rparr> \<notin> set (edgeNormals Vec2_cw unitSquare) \<and>
   Min (penetration origin origin unitSquare hugeSquare ` set (edgeNormals Vec2_cw unitSquare)) =
     FLT_MAX + 1/2 \<and>
   checkOverlap Vec2_ccw origin origin unitSquare hugeSquare =
     Some \<lparr>depth = FLT_MAX, direction = \<lparr>vx = 0, vy = 0\<rparr>\<rparr> \<and>
   \<lparr>vx = 0, vy = 0\<rparr> \<notin> set (edgeNormals Vec2_ccw unitSquare) \<and>
   Min (penetration origin origin unitSquare hugeSquare ` set (edgeNormals Vec2_ccw unitSquare)) =
     FLT_MAX + 1/2"
  by (simp add: probe_huge edgeNormals_cw edgeNormals_ccw penetration_huge)

text \<open>
  C1, amended. For all vertex sets A and B and all positions, \<open>checkOverlap\<close> reports
  no overlap exactly when the normal of some edge of A, the edges taken from each
  vertex's predecessor and wrapping the last vertex to the first, is a separating axis
  for the intervals it computes. Otherwise the depth it returns is the least penetration
  \<open>|projA.max - projB.min|\<close> over A's edge normals, capped by the initial
  \<open>minPenetration\<close> \<open>FLT_MAX\<close>. When some penetration lies below \<open>FLT_MAX\<close>, the
  depth is the minimum of the penetrations and the normal is the first edge normal of A
  that attains it; when none does (an empty A among the cases), the depth is \<open>FLT_MAX\<close>
  and the normal the default-constructed \<open>Vec2\<close>. No axis of B is looked at.
\<close>

theorem checkOverlap_sat:
  fixes H posA posB vsA vsB
  defines "axes \<equiv> edgeNormals H vsA"
  shows "(checkOverlap H posA posB vsA vsB = None \<longleftrightarrow>
          (\<exists>n \<in> set axes. separatingAxis posA posB vsA vsB n)) \<and>
         (\<forall>ov. checkOverlap H posA posB vsA vsB = Some ov \<longrightarrow>
            depth ov = Min (insert FLT_MAX (penetration posA posB vsA vsB ` set axes)) \<and>
            ((\<exists>n \<in> set axes. penetration posA posB vsA vsB n < FLT_MAX) \<longrightarrow>
               depth ov = Min (penetration posA posB vsA vsB ` set axes) \<and>
               direction ov \<in> set axes \<and>
               penetration posA posB vsA vsB (direction ov) = depth ov \<and>
               find (\<lambda>n. penetration posA posB vsA vsB n = depth ov) axes = Some (direction ov)) \<and>
            ((\<forall>n \<in> set axes. FLT_MAX \<le> penetration posA posB vsA vsB n) \<longrightarrow>
               depth ov = FLT_MAX \<and> direction ov = Vec2_init H))"
proof (intro conjI allI impI)
  show "checkOverlap H posA posB vsA vsB = None \<longleftrightarrow>
          (\<exists>n \<in> set axes. separatingAxis posA posB vsA vsB n)"
    by (simp add: checkOverlap_scan scanAxes_None axes_def)
next
  fix ov assume some: "checkOverlap H posA posB vsA vsB = Some ov"
  then have run: "scanAxes (separatingAxis posA posB vsA vsB) (penetration posA posB vsA vsB)
      axes FLT_MAX (Vec2_init H) = Some ov"
    by (simp add: checkOverlap_scan axes_def)
  show d: "depth ov = Min (insert FLT_MAX (penetration posA posB vsA vsB ` set axes))"
    using run by (rule scanAxes_depth)
  {
    assume "\<forall>n \<in> set axes. FLT_MAX \<le> penetration posA posB vsA vsB n"
    with scanAxes_direction [OF run]
    show "depth ov = FLT_MAX" and "direction ov = Vec2_init H"
      by fastforce+
  }
  assume "\<exists>n \<in> set axes. penetration posA posB vsA vsB n < FLT_MAX"
  then obtain n where n: "n \<in> set axes" "penetration posA posB vsA vsB n < FLT_MAX" by auto
  have fin: "finite (penetration posA posB vsA vsB ` set axes)" by simp
  have mem: "penetration posA posB vsA vsB n \<in> penetration posA posB vsA vsB ` set axes"
    using n(1) by simp
  show d': "depth ov = Min (penetration posA posB vsA vsB ` set axes)"
    using d Min_below_sentinel(1) [OF fin mem n(2)] by simp
  have lt: "depth ov < FLT_MAX"
    using d' Min_below_sentinel(2) [OF fin mem n(2)] by simp
  from scanAxes_direction [OF run] lt
  show "direction ov \<in> set axes" and "penetration posA posB vsA vsB (direction ov) = depth ov"
    by auto
  show "find (\<lambda>n. penetration posA posB vsA vsB n = depth ov) axes = Some (direction ov)"
    using run lt by (rule scanAxes_first)
qed

theorem checkOverlap_sat_witness:
  "checkOverlap Vec2_cw origin farRight unitSquare unitSquare = None \<and>
   (\<exists>n \<in> set (edgeNormals Vec2_cw unitSquare).
      separatingAxis origin farRight unitSquare unitSquare n) \<and>
   checkOverlap Vec2_cw origin halfRight unitSquare unitSquare =
      Some \<lparr>depth = 1/2, direction = \<lparr>vx = 1, vy = 0\<rparr>\<rparr> \<and>
   (\<exists>n \<in> set (edgeNormals Vec2_cw unitSquare).
      penetration origin halfRight unitSquare unitSquare n < FLT_MAX) \<and>
   Min (penetration origin halfRight unitSquare unitSquare ` set (edgeNormals Vec2_cw unitSquare))
      = 1/2 \<and>
   find (\<lambda>n. penetration origin halfRight unitSquare unitSquare n = 1/2)
      (edgeNormals Vec2_cw unitSquare) = Some \<lparr>vx = 1, vy = 0\<rparr>"
proof -
  have ex: "\<exists>n \<in> set (edgeNormals Vec2_cw unitSquare).
      penetration origin halfRight unitSquare unitSquare n < FLT_MAX"
    by (simp add: edgeNormals_cw squares_eval)
  from checkOverlap_sat [of Vec2_cw origin farRight unitSquare unitSquare] probe_cw_far
  have far: "\<exists>n \<in> set (edgeNormals Vec2_cw unitSquare).
      separatingAxis origin farRight unitSquare unitSquare n"
    by simp
  from checkOverlap_sat [of Vec2_cw origin halfRight unitSquare unitSquare] probe_cw_AB ex
  have "Min (penetration origin halfRight unitSquare unitSquare `
          set (edgeNormals Vec2_cw unitSquare)) = 1/2 \<and>
        find (\<lambda>n. penetration origin halfRight unitSquare unitSquare n = 1/2)
          (edgeNormals Vec2_cw unitSquare) = Some \<lparr>vx = 1, vy = 0\<rparr>"
    by simp
  with ex far probe_cw_far probe_cw_AB show ?thesis by simp
qed

section \<open>The pair resolver, case by case\<close>

lemma solveCollision_reached:
  assumes "\<not> areBothStatic mA mB" "boundsOverlap bA bB"
    and "checkOverlap H pA pB vsA vsB = Some o1" "checkOverlap H pB pA vsB vsA = Some o2"
  shows "solveCollision H mA mB bA bB pA pB vsA vsB s =
     (let d = min (depth o1) (depth o2);
          n = (if depth o1 < depth o2 then direction o1 else direction o2);
          d1 = d * mA / (mA + mB);
          d2 = d - d1;
          d1' = (if depth o1 \<ge> depth o2 then d1 * (- 1) else d1);
          d2' = (if depth o1 \<ge> depth o2 then d2 * (- 1) else d2);
          vRel = vsub (velocityA s) (velocityB s);
          j = - dot n vRel * 2 / (mA + mB)
      in \<lparr>velocityA = vadd (velocityA s) (vmul n (j * mA)),
          velocityB = vsub (velocityB s) (vmul n (j * mB)),
          overlapAccumulatorA = vsub (overlapAccumulatorA s) (vmul n d1'),
          overlapAccumulatorB = vadd (overlapAccumulatorB s) (vmul n d2')\<rparr>)"
  using assms by (simp add: solveCollision_def)

lemma solveCollision_skipped:
  assumes "areBothStatic mA mB \<or> \<not> boundsOverlap bA bB \<or>
     checkOverlap H pA pB vsA vsB = None \<or> checkOverlap H pB pA vsB vsA = None"
  shows "solveCollision H mA mB bA bB pA pB vsA vsB s = s"
  using assms by (auto simp add: solveCollision_def split: option.splits)


text \<open>
  The direction a probe returns is an edge normal of the probed shape, unless the depth is
  still the sentinel and the direction the default-constructed \<open>Vec2\<close>.
\<close>

lemma checkOverlap_direction:
  assumes "checkOverlap H pA pB vsA vsB = Some ov"
  shows "depth ov = FLT_MAX \<and> direction ov = Vec2_init H \<or>
         depth ov < FLT_MAX \<and> direction ov \<in> set (edgeNormals H vsA)"
proof -
  from assms have run: "scanAxes (separatingAxis pA pB vsA vsB) (penetration pA pB vsA vsB)
      (edgeNormals H vsA) FLT_MAX (Vec2_init H) = Some ov"
    by (simp add: checkOverlap_scan)
  from scanAxes_direction [OF run] show ?thesis by blast
qed



lemma boundsOverlap_sym: "boundsOverlap bB bA = boundsOverlap bA bB"
  by (auto simp add: boundsOverlap_def)

lemma areBothStatic_sym: "areBothStatic mB mA = areBothStatic mA mB"
  by (auto simp add: areBothStatic_def)


lemma dot_vsub_swap: "dot n (vsub b a) = - dot n (vsub a b)"
  by (simp add: dot_def vsub_def algebra_simps)

lemma dot_vmul_neg: "dot (vmul n (- 1)) v = - dot n v"
  by (simp add: dot_def vmul_def)


text \<open>The result of a call that reaches the impulse step, field by field.\<close>

lemma solveCollision_resolved:
  assumes r: "\<not> areBothStatic mA mB" "boundsOverlap bA bB"
      "checkOverlap H pA pB vsA vsB = Some o1" "checkOverlap H pB pA vsB vsA = Some o2"
    and n: "n = (if depth o1 < depth o2 then direction o1 else direction o2)"
    and d1: "d1 = min (depth o1) (depth o2) * mA / (mA + mB)"
    and d2: "d2 = min (depth o1) (depth o2) - d1"
    and f: "f = (if depth o1 \<ge> depth o2 then - 1 else 1)"
    and j: "j = - dot n (vsub (velocityA s) (velocityB s)) * 2 / (mA + mB)"
  shows "solveCollision H mA mB bA bB pA pB vsA vsB s =
     \<lparr>velocityA = vadd (velocityA s) (vmul n (j * mA)),
      velocityB = vsub (velocityB s) (vmul n (j * mB)),
      overlapAccumulatorA = vsub (overlapAccumulatorA s) (vmul n (d1 * f)),
      overlapAccumulatorB = vadd (overlapAccumulatorB s) (vmul n (d2 * f))\<rparr>"
  unfolding solveCollision_reached [OF r]
  by (simp add: Let_def n d1 d2 f j)

text \<open>The algebra of the impulse, on coordinates.\<close>

lemma elastic_energy:
  fixes a b ux uy wx wy mA mB j :: real
  assumes "0 < mA" "0 < mB" and unit: "a * a + b * b = 1 \<or> a = 0 \<and> b = 0"
    and j: "j = - (a * (ux - wx) + b * (uy - wy)) * 2 / (mA + mB)"
  shows "((ux + a * (j * mA)) * (ux + a * (j * mA)) + (uy + b * (j * mA)) * (uy + b * (j * mA))) / mA +
         ((wx - a * (j * mB)) * (wx - a * (j * mB)) + (wy - b * (j * mB)) * (wy - b * (j * mB))) / mB =
         (ux * ux + uy * uy) / mA + (wx * wx + wy * wy) / mB"
proof -
  define r where "r = a * (ux - wx) + b * (uy - wy)"
  have S: "mA + mB \<noteq> 0" using assms(1,2) by simp
  have jS: "j * (mA + mB) = - 2 * r" using S by (simp add: j r_def)
  have eA: "((ux + a * (j * mA)) * (ux + a * (j * mA)) + (uy + b * (j * mA)) * (uy + b * (j * mA))) / mA =
      (ux * ux + uy * uy) / mA + 2 * j * (a * ux + b * uy) + j * j * mA * (a * a + b * b)"
    using assms(1) by (simp add: field_simps)
  have eB: "((wx - a * (j * mB)) * (wx - a * (j * mB)) + (wy - b * (j * mB)) * (wy - b * (j * mB))) / mB =
      (wx * wx + wy * wy) / mB - 2 * j * (a * wx + b * wy) + j * j * mB * (a * a + b * b)"
    using assms(2) by (simp add: field_simps)
  have "2 * j * (a * ux + b * uy) - 2 * j * (a * wx + b * wy) + j * j * mA + j * j * mB =
      j * (2 * r + j * (mA + mB))"
    by (simp add: r_def algebra_simps)
  also have "\<dots> = 0" by (simp add: jS)
  finally have z: "2 * j * (a * ux + b * uy) - 2 * j * (a * wx + b * wy) + j * j * mA + j * j * mB = 0" .
  from unit show ?thesis
  proof
    assume u: "a * a + b * b = 1"
    show ?thesis unfolding eA eB u using z by simp
  next
    assume "a = 0 \<and> b = 0"
    then show ?thesis by simp
  qed
qed

lemma elastic_momentum:
  fixes u w k mA mB :: real
  assumes "0 < mA" "0 < mB"
  shows "(u + k * (j * mA)) / mA + (w - k * (j * mB)) / mB = u / mA + w / mB"
  using assms by (simp add: field_simps)

section \<open>The two unit squares, resolved\<close>

lemma squaresRun_cw:
  assumes "\<not> areBothStatic mA mB"
  shows "squaresRun Vec2_cw mA mB s =
     \<lparr>velocityA = vadd (velocityA s)
         (vmul \<lparr>vx = - 1, vy = 0\<rparr>
            (- dot \<lparr>vx = - 1, vy = 0\<rparr> (vsub (velocityA s) (velocityB s)) * 2 / (mA + mB) * mA)),
      velocityB = vsub (velocityB s)
         (vmul \<lparr>vx = - 1, vy = 0\<rparr>
            (- dot \<lparr>vx = - 1, vy = 0\<rparr> (vsub (velocityA s) (velocityB s)) * 2 / (mA + mB) * mB)),
      overlapAccumulatorA = vsub (overlapAccumulatorA s)
         (vmul \<lparr>vx = - 1, vy = 0\<rparr> (1/2 * mA / (mA + mB) * (- 1))),
      overlapAccumulatorB = vadd (overlapAccumulatorB s)
         (vmul \<lparr>vx = - 1, vy = 0\<rparr> ((1/2 - 1/2 * mA / (mA + mB)) * (- 1)))\<rparr>"
  unfolding squaresRun_def
    solveCollision_reached [OF assms bounds_squares(1) probe_cw_AB probe_cw_BA]
  by (simp add: Let_def)

lemma squaresRun_ccw:
  assumes "\<not> areBothStatic mA mB"
  shows "squaresRun Vec2_ccw mA mB s =
     \<lparr>velocityA = vadd (velocityA s)
         (vmul \<lparr>vx = - 1, vy = 0\<rparr>
            (- dot \<lparr>vx = - 1, vy = 0\<rparr> (vsub (velocityA s) (velocityB s)) * 2 / (mA + mB) * mA)),
      velocityB = vsub (velocityB s)
         (vmul \<lparr>vx = - 1, vy = 0\<rparr>
            (- dot \<lparr>vx = - 1, vy = 0\<rparr> (vsub (velocityA s) (velocityB s)) * 2 / (mA + mB) * mB)),
      overlapAccumulatorA = vsub (overlapAccumulatorA s)
         (vmul \<lparr>vx = - 1, vy = 0\<rparr> (1/2 * mA / (mA + mB) * (- 1))),
      overlapAccumulatorB = vadd (overlapAccumulatorB s)
         (vmul \<lparr>vx = - 1, vy = 0\<rparr> ((1/2 - 1/2 * mA / (mA + mB)) * (- 1)))\<rparr>"
  unfolding squaresRun_def
    solveCollision_reached [OF assms bounds_squares(1) probe_ccw_AB probe_ccw_BA]
  by (simp add: Let_def)

lemma squaresRunSwapped_cw:
  assumes "\<not> areBothStatic mB mA"
  shows "squaresRunSwapped Vec2_cw mA mB s =
     \<lparr>velocityA = vadd (velocityB s)
         (vmul \<lparr>vx = 1, vy = 0\<rparr>
            (- dot \<lparr>vx = 1, vy = 0\<rparr> (vsub (velocityB s) (velocityA s)) * 2 / (mB + mA) * mB)),
      velocityB = vsub (velocityA s)
         (vmul \<lparr>vx = 1, vy = 0\<rparr>
            (- dot \<lparr>vx = 1, vy = 0\<rparr> (vsub (velocityB s) (velocityA s)) * 2 / (mB + mA) * mA)),
      overlapAccumulatorA = vsub (overlapAccumulatorB s)
         (vmul \<lparr>vx = 1, vy = 0\<rparr> (1/2 * mB / (mB + mA) * (- 1))),
      overlapAccumulatorB = vadd (overlapAccumulatorA s)
         (vmul \<lparr>vx = 1, vy = 0\<rparr> ((1/2 - 1/2 * mB / (mB + mA)) * (- 1)))\<rparr>"
  unfolding squaresRunSwapped_def
    solveCollision_reached [OF assms bounds_squares(2) probe_cw_BA probe_cw_AB]
  by (simp add: Let_def swapMotion_def)

lemma squaresRunSwapped_ccw:
  assumes "\<not> areBothStatic mB mA"
  shows "squaresRunSwapped Vec2_ccw mA mB s =
     \<lparr>velocityA = vadd (velocityB s)
         (vmul \<lparr>vx = 1, vy = 0\<rparr>
            (- dot \<lparr>vx = 1, vy = 0\<rparr> (vsub (velocityB s) (velocityA s)) * 2 / (mB + mA) * mB)),
      velocityB = vsub (velocityA s)
         (vmul \<lparr>vx = 1, vy = 0\<rparr>
            (- dot \<lparr>vx = 1, vy = 0\<rparr> (vsub (velocityB s) (velocityA s)) * 2 / (mB + mA) * mA)),
      overlapAccumulatorA = vsub (overlapAccumulatorB s)
         (vmul \<lparr>vx = 1, vy = 0\<rparr> (1/2 * mB / (mB + mA) * (- 1))),
      overlapAccumulatorB = vadd (overlapAccumulatorA s)
         (vmul \<lparr>vx = 1, vy = 0\<rparr> ((1/2 - 1/2 * mB / (mB + mA)) * (- 1)))\<rparr>"
  unfolding squaresRunSwapped_def
    solveCollision_reached [OF assms bounds_squares(2) probe_ccw_BA probe_ccw_AB]
  by (simp add: Let_def swapMotion_def)

lemmas motion_eval =
  areBothStatic_def atRest_def movingA_def origin_def vadd_def vsub_def vmul_def dot_def

lemma squares_1_1_atRest:
  "squaresRun Vec2_cw 1 1 atRest =
     \<lparr>velocityA = origin, velocityB = origin,
      overlapAccumulatorA = \<lparr>vx = - (1/4), vy = 0\<rparr>,
      overlapAccumulatorB = \<lparr>vx = 1/4, vy = 0\<rparr>\<rparr>"
  "squaresRun Vec2_ccw 1 1 atRest =
     \<lparr>velocityA = origin, velocityB = origin,
      overlapAccumulatorA = \<lparr>vx = - (1/4), vy = 0\<rparr>,
      overlapAccumulatorB = \<lparr>vx = 1/4, vy = 0\<rparr>\<rparr>"
  by (simp_all add: squaresRun_cw squaresRun_ccw motion_eval)

lemma squares_1_3_movingA:
  "squaresRun Vec2_cw 1 3 movingA =
     \<lparr>velocityA = \<lparr>vx = 1/2, vy = 0\<rparr>, velocityB = \<lparr>vx = 3/2, vy = 0\<rparr>,
      overlapAccumulatorA = \<lparr>vx = - (1/8), vy = 0\<rparr>,
      overlapAccumulatorB = \<lparr>vx = 3/8, vy = 0\<rparr>\<rparr>"
  by (simp add: squaresRun_cw motion_eval)

lemma squares_1_3_movingA_swapped:
  "squaresRunSwapped Vec2_cw 1 3 movingA =
     \<lparr>velocityA = \<lparr>vx = 3/2, vy = 0\<rparr>, velocityB = \<lparr>vx = 1/2, vy = 0\<rparr>,
      overlapAccumulatorA = \<lparr>vx = 3/8, vy = 0\<rparr>,
      overlapAccumulatorB = \<lparr>vx = - (1/8), vy = 0\<rparr>\<rparr>"
  by (simp add: squaresRunSwapped_cw motion_eval)

lemma squares_1_0_movingA:
  "squaresRun Vec2_cw 1 0 movingA =
     \<lparr>velocityA = \<lparr>vx = - 1, vy = 0\<rparr>, velocityB = origin,
      overlapAccumulatorA = \<lparr>vx = - (1/2), vy = 0\<rparr>,
      overlapAccumulatorB = origin\<rparr>"
  by (simp add: squaresRun_cw motion_eval)

lemma squares_0_1_movingA:
  "squaresRun Vec2_cw 0 1 movingA =
     \<lparr>velocityA = \<lparr>vx = 1, vy = 0\<rparr>, velocityB = \<lparr>vx = 2, vy = 0\<rparr>,
      overlapAccumulatorA = origin,
      overlapAccumulatorB = \<lparr>vx = 1/2, vy = 0\<rparr>\<rparr>"
  by (simp add: squaresRun_cw motion_eval)

lemma squares_1_1_movingA:
  "squaresRun Vec2_cw 1 1 movingA =
     \<lparr>velocityA = \<lparr>vx = 0, vy = 0\<rparr>, velocityB = \<lparr>vx = 1, vy = 0\<rparr>,
      overlapAccumulatorA = \<lparr>vx = - (1/4), vy = 0\<rparr>,
      overlapAccumulatorB = \<lparr>vx = 1/4, vy = 0\<rparr>\<rparr>"
  "squaresRunSwapped Vec2_cw 1 1 movingA =
     \<lparr>velocityA = \<lparr>vx = 1, vy = 0\<rparr>, velocityB = \<lparr>vx = 0, vy = 0\<rparr>,
      overlapAccumulatorA = \<lparr>vx = 1/4, vy = 0\<rparr>,
      overlapAccumulatorB = \<lparr>vx = - (1/4), vy = 0\<rparr>\<rparr>"
  by (simp_all add: squaresRun_cw squaresRunSwapped_cw motion_eval)

lemma not_static_1_3: "\<not> areBothStatic 1 3"
  by (simp add: areBothStatic_def)

lemma squares_unit_normals:
  "\<forall>n \<in> set (edgeNormals Vec2_cw unitSquare) \<union> set (edgeNormals Vec2_cw unitSquare).
     dot n n = 1"
  by (simp add: edgeNormals_cw dot_def)

section \<open>The impulse\<close>

text \<open>
  C2. In every call that reaches the impulse step (not both bodies static, bounds
  overlapping, both probes reporting overlap), with \<open>n\<close> the direction of the probe
  with the smaller depth (the second probe's on a tie), the velocities are updated by
  \<open>vRel = velocityA - velocityB\<close>, \<open>j = -(n\<cdot>vRel)\<cdot>2/(invMassA + invMassB)\<close>,
  \<open>velocityA' = velocityA + n\<cdot>(j\<cdot>invMassA)\<close> and
  \<open>velocityB' = velocityB - n\<cdot>(j\<cdot>invMassB)\<close>, with the constant factor 2.
\<close>

theorem solveCollision_impulse:
  assumes "\<not> areBothStatic mA mB" "boundsOverlap bA bB"
    and "checkOverlap H pA pB vsA vsB = Some o1" "checkOverlap H pB pA vsB vsA = Some o2"
    and "n = (if depth o1 < depth o2 then direction o1 else direction o2)"
    and "vRel = vsub (velocityA s) (velocityB s)"
    and "j = - dot n vRel * 2 / (mA + mB)"
  shows "velocityA (solveCollision H mA mB bA bB pA pB vsA vsB s) =
           vadd (velocityA s) (vmul n (j * mA)) \<and>
         velocityB (solveCollision H mA mB bA bB pA pB vsA vsB s) =
           vsub (velocityB s) (vmul n (j * mB))"
  using assms(5-7) by (simp add: solveCollision_reached [OF assms(1-4)] Let_def)

text \<open>The squares with inverse masses 1 and 3, A moving right at speed 1.\<close>

theorem solveCollision_impulse_witness:
  "\<not> areBothStatic 1 3 \<and> boundsOverlap (squareBounds origin) (squareBounds halfRight) \<and>
   velocityA (squaresRun Vec2_cw 1 3 movingA) = \<lparr>vx = 1/2, vy = 0\<rparr> \<and>
   velocityB (squaresRun Vec2_cw 1 3 movingA) = \<lparr>vx = 3/2, vy = 0\<rparr>"
  using solveCollision_impulse [OF not_static_1_3 bounds_squares(1) probe_cw_AB probe_cw_BA
      refl refl refl, of movingA]
    not_static_1_3 bounds_squares(1)
  by (simp add: squaresRun_def movingA_def origin_def vadd_def vsub_def vmul_def dot_def)

section \<open>The positional correction\<close>



section \<open>The early returns\<close>

text \<open>
  C4. A call in which both inverse masses are zero, or the bounds do not overlap, or
  either probe reports no overlap, returns the velocities and the accumulators it was
  given. The test for two static bodies comes first: in that case nothing else, and no
  division by \<open>invMassA + invMassB\<close>, is evaluated.
\<close>

theorem solveCollision_no_mutation:
  assumes "areBothStatic mA mB \<or> \<not> boundsOverlap bA bB \<or>
     checkOverlap H pA pB vsA vsB = None \<or> checkOverlap H pB pA vsB vsA = None"
  shows "solveCollision H mA mB bA bB pA pB vsA vsB s = s"
  using assms by (rule solveCollision_skipped)

text \<open>
  Two static squares; two squares whose bounds are apart; and two squares that the probe
  separates although the bounds passed in overlap.
\<close>

theorem solveCollision_no_mutation_witness:
  "solveCollision Vec2_cw 0 0 (squareBounds origin) (squareBounds halfRight)
     origin halfRight unitSquare unitSquare movingA = movingA \<and>
   solveCollision Vec2_cw 1 1 (squareBounds origin) (squareBounds farRight)
     origin farRight unitSquare unitSquare movingA = movingA \<and>
   solveCollision Vec2_cw 1 1 (squareBounds origin) (squareBounds halfRight)
     origin farRight unitSquare unitSquare movingA = movingA"
proof -
  have "areBothStatic 0 0" by (simp add: areBothStatic_def)
  then have a: "solveCollision Vec2_cw 0 0 (squareBounds origin) (squareBounds halfRight)
     origin halfRight unitSquare unitSquare movingA = movingA"
    by (intro solveCollision_no_mutation) simp
  have b: "solveCollision Vec2_cw 1 1 (squareBounds origin) (squareBounds farRight)
     origin farRight unitSquare unitSquare movingA = movingA"
    using bounds_squares(3) by (intro solveCollision_no_mutation) simp
  have c: "solveCollision Vec2_cw 1 1 (squareBounds origin) (squareBounds halfRight)
     origin farRight unitSquare unitSquare movingA = movingA"
    using probe_cw_far by (intro solveCollision_no_mutation) simp
  from a b c show ?thesis by simp
qed

section \<open>Conservation\<close>

text \<open>
  C5. In every call that applies the impulse between two bodies of finite mass (both
  inverse masses positive), total momentum and total kinetic energy are the same before
  and after the call, in exact arithmetic. The energy is kept when the collision normal
  is a unit vector: the edge normals of both polygons are assumed to be, as the
  specification says of its axes. The normal is one of them when the resolved depth lies
  below the sentinel \<open>FLT_MAX\<close>; otherwise it is the default-constructed \<open>Vec2\<close>,
  and a zero vector there applies no impulse at all.
\<close>

theorem solveCollision_conserves:
  assumes mass: "0 < mA" "0 < mB"
    and reach: "boundsOverlap bA bB"
      "checkOverlap H pA pB vsA vsB = Some o1" "checkOverlap H pB pA vsB vsA = Some o2"
    and unit: "\<forall>n \<in> set (edgeNormals H vsA) \<union> set (edgeNormals H vsB). dot n n = 1"
    and range: "Vec2_init H = \<lparr>vx = 0, vy = 0\<rparr> \<or> min (depth o1) (depth o2) < FLT_MAX"
  shows "momentum mA mB (solveCollision H mA mB bA bB pA pB vsA vsB s) = momentum mA mB s \<and>
         kineticEnergy mA mB (solveCollision H mA mB bA bB pA pB vsA vsB s) = kineticEnergy mA mB s"
proof -
  define n where "n = (if depth o1 < depth o2 then direction o1 else direction o2)"
  define j where "j = - dot n (vsub (velocityA s) (velocityB s)) * 2 / (mA + mB)"
  have ns: "\<not> areBothStatic mA mB" using mass by (simp add: areBothStatic_def)
  have vel: "velocityA (solveCollision H mA mB bA bB pA pB vsA vsB s) =
               vadd (velocityA s) (vmul n (j * mA))"
            "velocityB (solveCollision H mA mB bA bB pA pB vsA vsB s) =
               vsub (velocityB s) (vmul n (j * mB))"
    by (simp_all add: solveCollision_reached [OF ns reach] Let_def n_def j_def)
  have "n \<in> set (edgeNormals H vsA) \<union> set (edgeNormals H vsB) \<or> n = \<lparr>vx = 0, vy = 0\<rparr>"
  proof (cases "depth o1 < depth o2")
    case True
    then have "n = direction o1" "min (depth o1) (depth o2) = depth o1"
      by (simp_all add: n_def)
    with checkOverlap_direction [OF reach(2)] range show ?thesis by auto
  next
    case False
    then have "n = direction o2" "min (depth o1) (depth o2) = depth o2"
      by (simp_all add: n_def)
    with checkOverlap_direction [OF reach(3)] range show ?thesis by auto
  qed
  then have "dot n n = 1 \<or> n = \<lparr>vx = 0, vy = 0\<rparr>" using unit by blast
  then have u: "vx n * vx n + vy n * vy n = 1 \<or> vx n = 0 \<and> vy n = 0"
    by (auto simp add: dot_def)
  have jj: "j = - (vx n * (vx (velocityA s) - vx (velocityB s)) +
                   vy n * (vy (velocityA s) - vy (velocityB s))) * 2 / (mA + mB)"
    by (simp add: j_def dot_def vsub_def)
  have "momentum mA mB (solveCollision H mA mB bA bB pA pB vsA vsB s) = momentum mA mB s"
    unfolding momentum_def vel
    by (simp add: vadd_def vsub_def vmul_def elastic_momentum [OF mass])
  moreover
  have "kineticEnergy mA mB (solveCollision H mA mB bA bB pA pB vsA vsB s) = kineticEnergy mA mB s"
    unfolding kineticEnergy_def vel
    by (simp add: vadd_def vsub_def vmul_def dot_def elastic_energy [OF mass u jj])
  ultimately show ?thesis by simp
qed

theorem solveCollision_conserves_witness:
  "momentum 1 3 (squaresRun Vec2_cw 1 3 movingA) = momentum 1 3 movingA \<and>
   kineticEnergy 1 3 (squaresRun Vec2_cw 1 3 movingA) = kineticEnergy 1 3 movingA \<and>
   velocityA (squaresRun Vec2_cw 1 3 movingA) \<noteq> velocityA movingA \<and>
   min (1/2 :: real) (1/2) < FLT_MAX"
proof -
  have m: "(0::real) < 1" "(0::real) < 3" by simp_all
  have r: "Vec2_init Vec2_cw = \<lparr>vx = 0, vy = 0\<rparr> \<or>
           min (depth \<lparr>depth = 1/2, direction = \<lparr>vx = 1, vy = 0\<rparr>\<rparr>)
               (depth \<lparr>depth = 1/2, direction = \<lparr>vx = - 1, vy = 0\<rparr>\<rparr>) < FLT_MAX"
    by (simp add: FLT_MAX_def)
  note c = solveCollision_conserves [OF m bounds_squares(1) probe_cw_AB probe_cw_BA
      squares_unit_normals r, of movingA, folded squaresRun_def]
  have ne: "velocityA (squaresRun Vec2_cw 1 3 movingA) \<noteq> velocityA movingA"
    unfolding squares_1_3_movingA by (simp add: movingA_def)
  have lt: "min (1/2 :: real) (1/2) < FLT_MAX" by (simp add: FLT_MAX_def)
  from c ne lt show ?thesis by (simp only: simp_thms)
qed

section \<open>Swapping the two bodies\<close>

text \<open>
  C6, as stated, fails. With inverse masses 1 and 3, passing the two squares in the other
  order gives each body the very same velocity delta and accumulator delta as before,
  and the two bodies' deltas differ in size: the deltas of the swapped call are the
  negated deltas of the unswapped call neither position by position nor body by body.
\<close>

theorem swap_deltas_not_opposite:
  "\<not> oppositeDeltas movingA (squaresRun Vec2_cw 1 3 movingA)
       (swapMotion movingA) (squaresRunSwapped Vec2_cw 1 3 movingA) \<and>
   \<not> oppositeDeltas movingA (squaresRun Vec2_cw 1 3 movingA)
       movingA (swapMotion (squaresRunSwapped Vec2_cw 1 3 movingA)) \<and>
   \<not> oppositeDeltas movingA (squaresRun Vec2_ccw 1 3 movingA)
       (swapMotion movingA) (squaresRunSwapped Vec2_ccw 1 3 movingA) \<and>
   \<not> oppositeDeltas movingA (squaresRun Vec2_ccw 1 3 movingA)
       movingA (swapMotion (squaresRunSwapped Vec2_ccw 1 3 movingA))"
  by (simp add: oppositeDeltas_def squaresRun_cw squaresRun_ccw squaresRunSwapped_cw
      squaresRunSwapped_ccw swapMotion_def motion_eval)

text \<open>
  C6, amended. When the two inverse masses are equal (or the call resolves nothing: bounds
  apart, or a probe reporting no overlap), and provided the two probes either return
  different depths or, on a tie, opposite directions, calling \<open>solveCollision\<close> with
  the two bodies' arguments swapped adds to each argument position the negated increment
  of the unswapped call: the velocity deltas and the accumulator deltas of the swapped
  call are, position by position, equal and opposite to those of the unswapped call. The
  first part of the statement gives the two results in the form the code computes them,
  with the same increments \<open>iv\<close>, \<open>cA\<close>, \<open>cB\<close> in both calls: at equal inverse
  masses the two calls evaluate the same \<open>d1\<close>, \<open>d2\<close> and \<open>j\<close> up to sign, so the
  remainder \<open>d2 = d - d1\<close> is never compared with a quotient.
\<close>

theorem solveCollision_swap_opposite:
  assumes eq: "mB = mA \<or> \<not> boundsOverlap bA bB \<or>
        checkOverlap H pA pB vsA vsB = None \<or> checkOverlap H pB pA vsB vsA = None"
    and tie: "\<forall>o1 o2. checkOverlap H pA pB vsA vsB = Some o1 \<and>
        checkOverlap H pB pA vsB vsA = Some o2 \<and> depth o1 = depth o2 \<longrightarrow>
        direction o1 = vmul (direction o2) (- 1)"
  shows "(\<exists>iv cA cB.
           solveCollision H mA mB bA bB pA pB vsA vsB s =
             \<lparr>velocityA = vadd (velocityA s) iv,
              velocityB = vsub (velocityB s) iv,
              overlapAccumulatorA = vsub (overlapAccumulatorA s) cA,
              overlapAccumulatorB = vadd (overlapAccumulatorB s) cB\<rparr> \<and>
           solveCollision H mB mA bB bA pB pA vsB vsA (swapMotion s) =
             \<lparr>velocityA = vadd (velocityB s) (vmul iv (- 1)),
              velocityB = vsub (velocityA s) (vmul iv (- 1)),
              overlapAccumulatorA = vsub (overlapAccumulatorB s) (vmul cA (- 1)),
              overlapAccumulatorB = vadd (overlapAccumulatorA s) (vmul cB (- 1))\<rparr>) \<and>
         oppositeDeltas s (solveCollision H mA mB bA bB pA pB vsA vsB s)
           (swapMotion s) (solveCollision H mB mA bB bA pB pA vsB vsA (swapMotion s))"
proof -
  have ex: "\<exists>iv cA cB.
           solveCollision H mA mB bA bB pA pB vsA vsB s =
             \<lparr>velocityA = vadd (velocityA s) iv,
              velocityB = vsub (velocityB s) iv,
              overlapAccumulatorA = vsub (overlapAccumulatorA s) cA,
              overlapAccumulatorB = vadd (overlapAccumulatorB s) cB\<rparr> \<and>
           solveCollision H mB mA bB bA pB pA vsB vsA (swapMotion s) =
             \<lparr>velocityA = vadd (velocityB s) (vmul iv (- 1)),
              velocityB = vsub (velocityA s) (vmul iv (- 1)),
              overlapAccumulatorA = vsub (overlapAccumulatorB s) (vmul cA (- 1)),
              overlapAccumulatorB = vadd (overlapAccumulatorA s) (vmul cB (- 1))\<rparr>"
  proof (cases "areBothStatic mA mB \<or> \<not> boundsOverlap bA bB \<or>
     checkOverlap H pA pB vsA vsB = None \<or> checkOverlap H pB pA vsB vsA = None")
    case True
    then have T': "areBothStatic mB mA \<or> \<not> boundsOverlap bB bA \<or>
       checkOverlap H pB pA vsB vsA = None \<or> checkOverlap H pA pB vsA vsB = None"
      by (auto simp add: boundsOverlap_sym [of bB bA] areBothStatic_sym [of mB mA])
    have "solveCollision H mA mB bA bB pA pB vsA vsB s =
             \<lparr>velocityA = vadd (velocityA s) origin,
              velocityB = vsub (velocityB s) origin,
              overlapAccumulatorA = vsub (overlapAccumulatorA s) origin,
              overlapAccumulatorB = vadd (overlapAccumulatorB s) origin\<rparr>"
      unfolding solveCollision_skipped [OF True]
      by (simp add: origin_def vadd_def vsub_def)
    moreover have "solveCollision H mB mA bB bA pB pA vsB vsA (swapMotion s) =
             \<lparr>velocityA = vadd (velocityB s) (vmul origin (- 1)),
              velocityB = vsub (velocityA s) (vmul origin (- 1)),
              overlapAccumulatorA = vsub (overlapAccumulatorB s) (vmul origin (- 1)),
              overlapAccumulatorB = vadd (overlapAccumulatorA s) (vmul origin (- 1))\<rparr>"
      unfolding solveCollision_skipped [OF T']
      by (simp add: swapMotion_def origin_def vadd_def vsub_def vmul_def)
    ultimately show ?thesis by blast
  next
    case False
    then obtain o1 o2 where
      r: "\<not> areBothStatic mA mB" "boundsOverlap bA bB"
         "checkOverlap H pA pB vsA vsB = Some o1" "checkOverlap H pB pA vsB vsA = Some o2"
      by auto
    have r': "\<not> areBothStatic mB mA" "boundsOverlap bB bA"
      using r(1,2) by (simp_all add: boundsOverlap_sym [of bB bA] areBothStatic_sym [of mB mA])
    have m: "mB = mA" using eq r(2-4) by simp
    define n where "n = (if depth o1 < depth o2 then direction o1 else direction o2)"
    define d1 where "d1 = min (depth o1) (depth o2) * mA / (mA + mB)"
    define d2 where "d2 = min (depth o1) (depth o2) - d1"
    define f :: real where "f = (if depth o1 \<ge> depth o2 then - 1 else 1)"
    define j where "j = - dot n (vsub (velocityA s) (velocityB s)) * 2 / (mA + mB)"
    define n' where "n' = (if depth o2 < depth o1 then direction o2 else direction o1)"
    define f' :: real where "f' = (if depth o2 \<ge> depth o1 then - 1 else 1)"
    define j' where "j' = - dot n' (vsub (velocityB s) (velocityA s)) * 2 / (mB + mA)"
    have d1': "d1 = min (depth o2) (depth o1) * mB / (mB + mA)"
      by (simp add: d1_def m min.commute)
    have d2': "d2 = min (depth o2) (depth o1) - d1"
      by (simp add: d2_def min.commute)
    have j'': "j' = - dot n' (vsub (velocityA (swapMotion s)) (velocityB (swapMotion s))) * 2 /
        (mB + mA)"
      by (simp add: j'_def swapMotion_def)
    note L = solveCollision_resolved [OF r n_def d1_def d2_def f_def j_def]
    note R = solveCollision_resolved [OF r' r(4) r(3) n'_def d1' d2' f'_def j'']
    have rel: "(n' = n \<and> f' = - f \<and> j' = - j) \<or> (n' = vmul n (- 1) \<and> f' = f \<and> j' = j)"
    proof -
      consider (lt) "depth o1 < depth o2" | (gt) "depth o2 < depth o1" | (eq) "depth o1 = depth o2"
        by linarith
      then show ?thesis
      proof cases
        case lt
        then have "n' = n" "f' = - f" by (simp_all add: n_def n'_def f_def f'_def)
        moreover from this have "j' = - j"
          by (simp add: j_def j'_def dot_vsub_swap [of n "velocityB s"] add.commute [of mB mA])
        ultimately show ?thesis by simp
      next
        case gt
        then have "n' = n" "f' = - f" by (simp_all add: n_def n'_def f_def f'_def)
        moreover from this have "j' = - j"
          by (simp add: j_def j'_def dot_vsub_swap [of n "velocityB s"] add.commute [of mB mA])
        ultimately show ?thesis by simp
      next
        case eq
        with tie r(3,4) have "direction o1 = vmul (direction o2) (- 1)" by blast
        with eq have "n' = vmul n (- 1)" "f' = f" by (simp_all add: n_def n'_def f_def f'_def)
        moreover from this have "j' = j"
          by (simp add: j_def j'_def dot_vmul_neg dot_vsub_swap [of n "velocityB s"]
              add.commute [of mB mA])
        ultimately show ?thesis by simp
      qed
    qed
    have P: "vmul n' (j' * k) = vmul (vmul n (j * k)) (- 1)" for k
      using rel by (auto simp add: vmul_def)
    have Q: "vmul n' (k * f') = vmul (vmul n (k * f)) (- 1)" for k
      using rel by (auto simp add: vmul_def)
    have "solveCollision H mA mB bA bB pA pB vsA vsB s =
             \<lparr>velocityA = vadd (velocityA s) (vmul n (j * mA)),
              velocityB = vsub (velocityB s) (vmul n (j * mA)),
              overlapAccumulatorA = vsub (overlapAccumulatorA s) (vmul n (d1 * f)),
              overlapAccumulatorB = vadd (overlapAccumulatorB s) (vmul n (d2 * f))\<rparr>"
      unfolding L by (simp add: m)
    moreover have "solveCollision H mB mA bB bA pB pA vsB vsA (swapMotion s) =
             \<lparr>velocityA = vadd (velocityB s) (vmul (vmul n (j * mA)) (- 1)),
              velocityB = vsub (velocityA s) (vmul (vmul n (j * mA)) (- 1)),
              overlapAccumulatorA = vsub (overlapAccumulatorB s) (vmul (vmul n (d1 * f)) (- 1)),
              overlapAccumulatorB = vadd (overlapAccumulatorA s) (vmul (vmul n (d2 * f)) (- 1))\<rparr>"
      unfolding R P Q by (simp add: swapMotion_def m)
    ultimately show ?thesis by blast
  qed
  then obtain iv cA cB where
    L: "solveCollision H mA mB bA bB pA pB vsA vsB s =
             \<lparr>velocityA = vadd (velocityA s) iv,
              velocityB = vsub (velocityB s) iv,
              overlapAccumulatorA = vsub (overlapAccumulatorA s) cA,
              overlapAccumulatorB = vadd (overlapAccumulatorB s) cB\<rparr>"
    and R: "solveCollision H mB mA bB bA pB pA vsB vsA (swapMotion s) =
             \<lparr>velocityA = vadd (velocityB s) (vmul iv (- 1)),
              velocityB = vsub (velocityA s) (vmul iv (- 1)),
              overlapAccumulatorA = vsub (overlapAccumulatorB s) (vmul cA (- 1)),
              overlapAccumulatorB = vadd (overlapAccumulatorA s) (vmul cB (- 1))\<rparr>"
    by blast
  have "oppositeDeltas s (solveCollision H mA mB bA bB pA pB vsA vsB s)
           (swapMotion s) (solveCollision H mB mA bB bA pB pA vsB vsA (swapMotion s))"
    unfolding L R
    by (simp add: oppositeDeltas_def swapMotion_def vadd_def vsub_def vmul_def)
  with ex show ?thesis by blast
qed

text \<open>The squares with inverse masses 1 and 1, A moving right at speed 1.\<close>

theorem solveCollision_swap_opposite_witness:
  "oppositeDeltas movingA (squaresRun Vec2_cw 1 1 movingA)
     (swapMotion movingA) (squaresRunSwapped Vec2_cw 1 1 movingA) \<and>
   vsub (velocityA (squaresRun Vec2_cw 1 1 movingA)) (velocityA movingA) = \<lparr>vx = - 1, vy = 0\<rparr> \<and>
   vsub (velocityA (squaresRunSwapped Vec2_cw 1 1 movingA)) (velocityA (swapMotion movingA)) =
     \<lparr>vx = 1, vy = 0\<rparr>"
proof -
  have tie: "\<forall>o1 o2. checkOverlap Vec2_cw origin halfRight unitSquare unitSquare = Some o1 \<and>
        checkOverlap Vec2_cw halfRight origin unitSquare unitSquare = Some o2 \<and>
        depth o1 = depth o2 \<longrightarrow> direction o1 = vmul (direction o2) (- 1)"
    by (auto simp add: probe_cw_AB probe_cw_BA vmul_def)
  note c = solveCollision_swap_opposite [OF disjI1 [OF refl] tie,
      of 1 "squareBounds origin" "squareBounds halfRight" movingA,
      folded squaresRun_def squaresRunSwapped_def]
  have a: "vsub (velocityA (squaresRun Vec2_cw 1 1 movingA)) (velocityA movingA) =
      \<lparr>vx = - 1, vy = 0\<rparr>"
    unfolding squares_1_1_movingA by (simp add: movingA_def vsub_def)
  have b: "vsub (velocityA (squaresRunSwapped Vec2_cw 1 1 movingA))
      (velocityA (swapMotion movingA)) = \<lparr>vx = 1, vy = 0\<rparr>"
    unfolding squares_1_1_movingA by (simp add: movingA_def swapMotion_def origin_def vsub_def)
  from c a b show ?thesis by (simp only: simp_thms)
qed

text \<open>
  The condition on ties cannot be dropped. Each probe keeps the first of its least
  penetrations, in the order of its own vertex list, so two probes that tie may return
  normals along different axes; the unswapped call then resolves along the second probe's
  normal and the swapped call along the first probe's. For the unit square and the same
  square listed from its second vertex, half a unit apart on both coordinates and of equal
  inverse mass, the one order pushes the bodies apart along y and the other along x, and
  the deltas are not opposite.
\<close>

lemma edgeNormals_cw_shifted: "edgeNormals Vec2_cw unitSquareShifted =
   [\<lparr>vx = 0, vy = - 1\<rparr>, \<lparr>vx = 1, vy = 0\<rparr>, \<lparr>vx = 0, vy = 1\<rparr>, \<lparr>vx = - 1, vy = 0\<rparr>]"
  by (simp add: edgeNormals_def Vec2_cw_def unitSquareShifted_def normalized_def vsub_def dot_def
      Let_def)

lemma project_unitSquareShifted:
  "project unitSquareShifted \<lparr>vx = 1, vy = 0\<rparr> = \<lparr>minP = - (1/2), maxP = 1/2\<rparr>"
  "project unitSquareShifted \<lparr>vx = - 1, vy = 0\<rparr> = \<lparr>minP = - (1/2), maxP = 1/2\<rparr>"
  "project unitSquareShifted \<lparr>vx = 0, vy = 1\<rparr> = \<lparr>minP = - (1/2), maxP = 1/2\<rparr>"
  "project unitSquareShifted \<lparr>vx = 0, vy = - 1\<rparr> = \<lparr>minP = - (1/2), maxP = 1/2\<rparr>"
  by (simp_all add: project_def unitSquareShifted_def dot_def Let_def FLT_MAX_def)

lemma probe_diag_AB: "checkOverlap Vec2_cw origin halfDiagonal unitSquare unitSquareShifted =
   Some \<lparr>depth = 1/2, direction = \<lparr>vx = 1, vy = 0\<rparr>\<rparr>"
  by (simp add: checkOverlap_scan edgeNormals_cw squares_eval project_unitSquareShifted
      halfDiagonal_def)

lemma probe_diag_BA: "checkOverlap Vec2_cw halfDiagonal origin unitSquareShifted unitSquare =
   Some \<lparr>depth = 1/2, direction = \<lparr>vx = 0, vy = - 1\<rparr>\<rparr>"
  by (simp add: checkOverlap_scan edgeNormals_cw_shifted squares_eval project_unitSquareShifted
      halfDiagonal_def)

lemma bounds_diag:
  "boundsOverlap (squareBounds origin) (squareBounds halfDiagonal)"
  "boundsOverlap (squareBounds halfDiagonal) (squareBounds origin)"
  by (simp_all add: boundsOverlap_def squareBounds_def origin_def halfDiagonal_def)

lemma not_static_1_1: "\<not> areBothStatic 1 1"
  by (simp add: areBothStatic_def)

lemma swap_tie_order_dependent:
  "solveCollision Vec2_cw 1 1 (squareBounds origin) (squareBounds halfDiagonal)
     origin halfDiagonal unitSquare unitSquareShifted atRest =
     \<lparr>velocityA = origin, velocityB = origin,
      overlapAccumulatorA = \<lparr>vx = 0, vy = - (1/4)\<rparr>,
      overlapAccumulatorB = \<lparr>vx = 0, vy = 1/4\<rparr>\<rparr>"
  "solveCollision Vec2_cw 1 1 (squareBounds halfDiagonal) (squareBounds origin)
     halfDiagonal origin unitSquareShifted unitSquare (swapMotion atRest) =
     \<lparr>velocityA = origin, velocityB = origin,
      overlapAccumulatorA = \<lparr>vx = 1/4, vy = 0\<rparr>,
      overlapAccumulatorB = \<lparr>vx = - (1/4), vy = 0\<rparr>\<rparr>"
  unfolding solveCollision_reached [OF not_static_1_1 bounds_diag(1) probe_diag_AB probe_diag_BA]
    solveCollision_reached [OF not_static_1_1 bounds_diag(2) probe_diag_BA probe_diag_AB]
  by (simp_all add: Let_def swapMotion_def motion_eval)

lemma swap_tie_not_opposite:
  "\<not> oppositeDeltas atRest
       (solveCollision Vec2_cw 1 1 (squareBounds origin) (squareBounds halfDiagonal)
          origin halfDiagonal unitSquare unitSquareShifted atRest)
       (swapMotion atRest)
       (solveCollision Vec2_cw 1 1 (squareBounds halfDiagonal) (squareBounds origin)
          halfDiagonal origin unitSquareShifted unitSquare (swapMotion atRest))"
  unfolding swap_tie_order_dependent
  by (simp add: oppositeDeltas_def swapMotion_def atRest_def origin_def vsub_def vmul_def)

section \<open>The accumulators\<close>

text \<open>
  C7. Each call adds to each accumulator a contribution that depends neither on the
  accumulators nor on the velocities it is given; the velocities it returns do not depend
  on the accumulators; and after two calls in a row that involve the same body, that
  body's accumulator is its initial value plus the contributions of the two calls.
\<close>

theorem accumulator_additive:
  "overlapAccumulatorA (solveCollision H mA mB bA bB pA pB vsA vsB s) =
     vadd (overlapAccumulatorA s) (contributionA H mA mB bA bB pA pB vsA vsB) \<and>
   overlapAccumulatorB (solveCollision H mA mB bA bB pA pB vsA vsB s) =
     vadd (overlapAccumulatorB s) (contributionB H mA mB bA bB pA pB vsA vsB) \<and>
   velocityA (solveCollision H mA mB bA bB pA pB vsA vsB
       (s\<lparr>overlapAccumulatorA := accA, overlapAccumulatorB := accB\<rparr>)) =
     velocityA (solveCollision H mA mB bA bB pA pB vsA vsB s) \<and>
   velocityB (solveCollision H mA mB bA bB pA pB vsA vsB
       (s\<lparr>overlapAccumulatorA := accA, overlapAccumulatorB := accB\<rparr>)) =
     velocityB (solveCollision H mA mB bA bB pA pB vsA vsB s) \<and>
   overlapAccumulatorA (solveCollision H mA mC bA' bC pA' pC vsA vsC
       ((solveCollision H mA mB bA bB pA pB vsA vsB s)
          \<lparr>velocityB := velC, overlapAccumulatorB := accC\<rparr>)) =
     vadd (vadd (overlapAccumulatorA s) (contributionA H mA mB bA bB pA pB vsA vsB))
       (contributionA H mA mC bA' bC pA' pC vsA vsC)"
proof -
  have A: "\<And>H mA mB bA bB pA pB vsA vsB s.
      overlapAccumulatorA (solveCollision H mA mB bA bB pA pB vsA vsB s) =
      vadd (overlapAccumulatorA s) (contributionA H mA mB bA bB pA pB vsA vsB)"
    by (simp add: contributionA_def solveCollision_def atRest_def origin_def Let_def
        vadd_def vsub_def vmul_def split: option.splits)
  have B: "overlapAccumulatorB (solveCollision H mA mB bA bB pA pB vsA vsB s) =
      vadd (overlapAccumulatorB s) (contributionB H mA mB bA bB pA pB vsA vsB)"
    by (simp add: contributionB_def solveCollision_def atRest_def origin_def Let_def
        vadd_def vsub_def vmul_def split: option.splits)
  have V: "velocityA (solveCollision H mA mB bA bB pA pB vsA vsB
       (s\<lparr>overlapAccumulatorA := accA, overlapAccumulatorB := accB\<rparr>)) =
     velocityA (solveCollision H mA mB bA bB pA pB vsA vsB s)"
     "velocityB (solveCollision H mA mB bA bB pA pB vsA vsB
       (s\<lparr>overlapAccumulatorA := accA, overlapAccumulatorB := accB\<rparr>)) =
     velocityB (solveCollision H mA mB bA bB pA pB vsA vsB s)"
    by (simp_all add: solveCollision_def Let_def split: option.splits)
  have S: "overlapAccumulatorA (solveCollision H mA mC bA' bC pA' pC vsA vsC
       ((solveCollision H mA mB bA bB pA pB vsA vsB s)
          \<lparr>velocityB := velC, overlapAccumulatorB := accC\<rparr>)) =
     vadd (vadd (overlapAccumulatorA s) (contributionA H mA mB bA bB pA pB vsA vsB))
       (contributionA H mA mC bA' bC pA' pC vsA vsC)"
    by (simp add: A)
  from A B V S show ?thesis by simp
qed

theorem accumulator_additive_witness:
  "contributionA Vec2_cw 1 1 (squareBounds origin) (squareBounds halfRight)
     origin halfRight unitSquare unitSquare = \<lparr>vx = - (1/4), vy = 0\<rparr> \<and>
   overlapAccumulatorA (squaresRun Vec2_cw 1 1 (squaresRun Vec2_cw 1 1 atRest)) =
     \<lparr>vx = - (1/2), vy = 0\<rparr>"
proof -
  have c: "contributionA Vec2_cw 1 1 (squareBounds origin) (squareBounds halfRight)
     origin halfRight unitSquare unitSquare = \<lparr>vx = - (1/4), vy = 0\<rparr>"
    by (simp add: contributionA_def squaresRun_def [symmetric] squares_1_1_atRest)
  from accumulator_additive [of Vec2_cw 1 1 "squareBounds origin" "squareBounds halfRight"
      origin halfRight unitSquare unitSquare "squaresRun Vec2_cw 1 1 atRest"]
  have "overlapAccumulatorA (squaresRun Vec2_cw 1 1 (squaresRun Vec2_cw 1 1 atRest)) =
     vadd (overlapAccumulatorA (squaresRun Vec2_cw 1 1 atRest)) \<lparr>vx = - (1/4), vy = 0\<rparr>"
    by (simp add: squaresRun_def [symmetric] c)
  with c show ?thesis by (simp add: squares_1_1_atRest vadd_def)
qed

section \<open>The scenario of the two unit squares\<close>

text \<open>
  C8, as stated, fails: the corrections added to the two accumulators do not have
  magnitude 0.125, whichever way the edge normals are turned.
\<close>

theorem unit_squares_not_eighth:
  "\<not> (\<bar>vx (overlapAccumulatorA (squaresRun Vec2_cw 1 1 atRest))\<bar> = 1/8 \<and>
      \<bar>vx (overlapAccumulatorB (squaresRun Vec2_cw 1 1 atRest))\<bar> = 1/8) \<and>
   \<not> (\<bar>vx (overlapAccumulatorA (squaresRun Vec2_ccw 1 1 atRest))\<bar> = 1/8 \<and>
      \<bar>vx (overlapAccumulatorB (squaresRun Vec2_ccw 1 1 atRest))\<bar> = 1/8)"
  by (simp add: squares_1_1_atRest)

text \<open>
  C8, amended. For the two axis-aligned unit squares, A centred at (0,0) and B at
  (0.5,0), both of inverse mass 1 and at rest, both probes report an overlap of depth 0.5
  with a normal along the x-axis, the accumulators receive corrections of magnitude 0.25
  in opposite x-directions (A towards -x, B towards +x), and both velocities stay
  (0,0).
\<close>

theorem unit_squares_scenario:
  "checkOverlap Vec2_cw origin halfRight unitSquare unitSquare =
     Some \<lparr>depth = 1/2, direction = \<lparr>vx = 1, vy = 0\<rparr>\<rparr> \<and>
   checkOverlap Vec2_cw halfRight origin unitSquare unitSquare =
     Some \<lparr>depth = 1/2, direction = \<lparr>vx = - 1, vy = 0\<rparr>\<rparr> \<and>
   squaresRun Vec2_cw 1 1 atRest =
     \<lparr>velocityA = origin, velocityB = origin,
      overlapAccumulatorA = \<lparr>vx = - (1/4), vy = 0\<rparr>,
      overlapAccumulatorB = \<lparr>vx = 1/4, vy = 0\<rparr>\<rparr> \<and>
   checkOverlap Vec2_ccw origin halfRight unitSquare unitSquare =
     Some \<lparr>depth = 1/2, direction = \<lparr>vx = 1, vy = 0\<rparr>\<rparr> \<and>
   checkOverlap Vec2_ccw halfRight origin unitSquare unitSquare =
     Some \<lparr>depth = 1/2, direction = \<lparr>vx = - 1, vy = 0\<rparr>\<rparr> \<and>
   squaresRun Vec2_ccw 1 1 atRest =
     \<lparr>velocityA = origin, velocityB = origin,
      overlapAccumulatorA = \<lparr>vx = - (1/4), vy = 0\<rparr>,
      overlapAccumulatorB = \<lparr>vx = 1/4, vy = 0\<rparr>\<rparr>"
  by (simp add: probe_cw_AB probe_cw_BA probe_ccw_AB probe_ccw_BA squares_1_1_atRest)

section \<open>The broad check\<close>

text \<open>
  C9. \<open>boundsOverlap\<close> is true exactly when the four strict inequalities hold; two
  boxes with a shared coordinate on any of the four sides do not overlap. It is a function
  of its two arguments alone.
\<close>

theorem boundsOverlap_strict:
  "(boundsOverlap boundsA boundsB \<longleftrightarrow>
      vx (topLeft boundsB) < vx (bottomRight boundsA) \<and>
      vx (topLeft boundsA) < vx (bottomRight boundsB) \<and>
      vy (topLeft boundsB) < vy (bottomRight boundsA) \<and>
      vy (topLeft boundsA) < vy (bottomRight boundsB)) \<and>
   (vx (bottomRight boundsA) = vx (topLeft boundsB) \<or>
    vx (topLeft boundsA) = vx (bottomRight boundsB) \<or>
    vy (bottomRight boundsA) = vy (topLeft boundsB) \<or>
    vy (topLeft boundsA) = vy (bottomRight boundsB) \<longrightarrow> \<not> boundsOverlap boundsA boundsB)"
  by (auto simp add: boundsOverlap_def)

theorem boundsOverlap_strict_witness:
  "vx (bottomRight (squareBounds origin)) = vx (topLeft (squareBounds \<lparr>vx = 1, vy = 0\<rparr>)) \<and>
   \<not> boundsOverlap (squareBounds origin) (squareBounds \<lparr>vx = 1, vy = 0\<rparr>) \<and>
   boundsOverlap (squareBounds origin) (squareBounds halfRight)"
  using boundsOverlap_strict [of "squareBounds origin" "squareBounds \<lparr>vx = 1, vy = 0\<rparr>"]
    boundsOverlap_strict [of "squareBounds origin" "squareBounds halfRight"]
  by (simp add: squareBounds_def origin_def halfRight_def)

section \<open>Immovable bodies\<close>

text \<open>
  Over exact arithmetic a body of inverse mass 0 keeps its velocity and its accumulator
  when the other body's inverse mass is positive. Three of the four parts hold for the
  program as well, since a product with 0 is 0 in \<open>float\<close> too. The fourth, the
  accumulator of a static B, rests on the remainder \<open>d2 = d - d * mA / (mA + 0)\<close> being
  exactly 0, which it is over the reals only.
\<close>

lemma static_body_unmoved_exact:
  "(mA = 0 \<and> 0 < mB \<longrightarrow>
      velocityA (solveCollision H mA mB bA bB pA pB vsA vsB s) = velocityA s \<and>
      overlapAccumulatorA (solveCollision H mA mB bA bB pA pB vsA vsB s) = overlapAccumulatorA s) \<and>
   (mB = 0 \<and> 0 < mA \<longrightarrow>
      velocityB (solveCollision H mA mB bA bB pA pB vsA vsB s) = velocityB s \<and>
      overlapAccumulatorB (solveCollision H mA mB bA bB pA pB vsA vsB s) = overlapAccumulatorB s)"
  by (auto simp add: solveCollision_def Let_def vadd_def vsub_def vmul_def split: option.splits)

text \<open>Evaluating \<open>binary32\<close> on a number whose binade is known.\<close>

lemma binary32_binade:
  assumes "2 powi e \<le> \<bar>x\<bar>" "\<bar>x\<bar> < 2 powi (e + 1)" "- 126 \<le> e"
  shows "binary32 x = of_int (roundEven (x / 2 powi (e - 23))) * 2 powi (e - 23)"
proof -
  have "(0::real) < 2 powi e" by simp
  with assms(1) have pos: "0 < \<bar>x\<bar>" by linarith
  have p: "(2::real) powr (of_int k) = 2 powi k" for k
    by (simp add: powr_real_of_int')
  have "(2::real) powr e \<le> \<bar>x\<bar>" "\<bar>x\<bar> < (2::real) powr (e + 1)"
    using assms(1,2) p [of e] p [of "e + 1"] by simp_all
  then have "\<lfloor>log 2 \<bar>x\<bar>\<rfloor> = e"
    using pos by (simp add: floor_log_eq_powr_iff)
  with pos assms(3) show ?thesis by (auto simp add: binary32_def Let_def)
qed

lemma binary32_0: "binary32 0 = 0"
  by (simp add: binary32_def)

lemma b32_sum: "binary32 (- (1/2) + 13421773 / 134217728) = - (13421773 / 33554432)"
  by (subst binary32_binade [where e = "- 2"]) (simp_all add: roundEven_def Let_def)

lemma b32_depth: "binary32 (30198989 / 33554432) = 15099494 / 16777216"
  by (subst binary32_binade [where e = "- 1"]) (simp_all add: roundEven_def Let_def)

lemma b32_3: "binary32 3 = 3"
  by (subst binary32_binade [where e = 1]) (simp_all add: roundEven_def Let_def)

lemma b32_prod: "binary32 (45298482 / 16777216) = 11324620 / 4194304"
  by (subst binary32_binade [where e = 1]) (simp_all add: roundEven_def Let_def)

lemma b32_quot: "binary32 (11324620 / 12582912) = 15099493 / 16777216"
  by (subst binary32_binade [where e = "- 1"]) (simp_all add: roundEven_def Let_def)

lemma b32_ulp: "binary32 (1 / 16777216) = 1 / 16777216"
  "binary32 (- (1 / 16777216)) = - (1 / 16777216)"
  by (subst binary32_binade [where e = "- 24"], simp_all add: roundEven_def Let_def)+

lemma b32_d1: "binary32 (- (15099493 / 16777216)) = - (15099493 / 16777216)"
  by (subst binary32_binade [where e = "- 1"]) (simp_all add: roundEven_def Let_def)

text \<open>
  A static A gets the share \<open>d * 0 / (0 + massInverseB)\<close>, which is 0 in binary32 as
  well.
\<close>

lemma shares32_static_A: "fst (shares32 depth1 depth2 0 mB) = 0"
  by (simp add: shares32_def Let_def binary32_0)

text \<open>
  C10 fails in the program for a static B. Take the two unit squares, A at (0,0) with
  inverse mass 3 and B at (0.1f, 0) with inverse mass 0, where 0.1f is the \<open>float\<close>
  13421773 / 2^27. On the axes of least penetration \<open>projA.max\<close> is 0.5, the unshifted
  \<open>projB.min\<close> is -0.5 and \<open>projD\<close> is 0.1f, so both probes return the depth
  15099494 / 2^24 and the tie flips the shares. Then \<open>d * 3\<close> rounds down, \<open>d1\<close>
  is 15099493 / 2^24 in size and the remainder \<open>d2\<close> is 2^-24 in size instead of 0:
  line 143 adds \<open>n * d2\<close> to the accumulator of the static body, which moves from (0,0)
  to (2^-24, 0) for the normal (-1,0).
\<close>

theorem static_B_accumulator_binary32:
  "penetration32 (1/2) (- (1/2)) (13421773 / 134217728) = 15099494 / 16777216 \<and>
   shares32 (15099494 / 16777216) (15099494 / 16777216) 3 0 =
     (- (15099493 / 16777216), - (1 / 16777216)) \<and>
   addScaled32 origin \<lparr>vx = - 1, vy = 0\<rparr> (- (1 / 16777216)) = \<lparr>vx = 1 / 16777216, vy = 0\<rparr>"
proof -
  have "\<bar>1/2 - (- (13421773 / 33554432))\<bar> = (30198989 / 33554432 :: real)"
    by simp
  then have p: "penetration32 (1/2) (- (1/2)) (13421773 / 134217728) = 15099494 / 16777216"
    unfolding penetration32_def b32_sum by (simp only: b32_depth)
  have m: "(15099494 / 16777216 :: real) * 3 = 45298482 / 16777216"
    and q: "(11324620 / 4194304 :: real) / 3 = 11324620 / 12582912"
    and r: "(15099494 / 16777216 :: real) - 15099493 / 16777216 = 1 / 16777216"
    by simp_all
  have s: "shares32 (15099494 / 16777216) (15099494 / 16777216) 3 0 =
     (- (15099493 / 16777216), - (1 / 16777216))"
    unfolding shares32_def Let_def
    by (simp only: min.idem order_refl if_True add_0_right mult_minus1_right
        m b32_prod b32_3 q b32_quot r b32_ulp b32_d1)
  have a: "addScaled32 origin \<lparr>vx = - 1, vy = 0\<rparr> (- (1 / 16777216)) =
      \<lparr>vx = 1 / 16777216, vy = 0\<rparr>"
    by (simp add: addScaled32_def origin_def b32_ulp binary32_0)
  from p s a show ?thesis by simp
qed

end
